theory Spec2Isabelle
  imports Complex_Main "HOL-Library.Monad_Syntax"
begin

section \<open>Falcon BMS performance monitor: the bottleneck classifier and its history\<close>

text \<open>
  A shallow embedding of \<^verbatim>\<open>falcon_bms_monitor.py\<close>. Python floats are read as
  real numbers: comparison and arithmetic are exact, and the special floats (infinities,
  not-a-number, negative zero) have no counterpart. Python's unbounded integers are
  \<^typ>\<open>int\<close>. A raised exception is the value \<open>None\<close> of an option type, so a
  function that never raises is one that always returns \<open>Some\<close>.
\<close>

subsection \<open>Python built-ins used by the monitor\<close>

text \<open>
  A \<^verbatim>\<open>dict\<close> keeps its keys in insertion order, and the classifier's selection
  depends on that order: a dictionary is an association list with distinct keys, the
  first pair being the first key inserted.
\<close>

type_synonym 'v pydict = "(string \<times> 'v) list"

text \<open>\<^verbatim>\<open>d[k]\<close>: KeyError when the key is missing.\<close>

definition dict_get :: "'v pydict \<Rightarrow> string \<Rightarrow> 'v option" where
  "dict_get d k = map_of d k"

text \<open>\<^verbatim>\<open>d[k] = v\<close>: an existing key keeps its place, a new key goes last.\<close>

fun dict_set :: "'v pydict \<Rightarrow> string \<Rightarrow> 'v \<Rightarrow> 'v pydict" where
  "dict_set [] k v = [(k, v)]"
| "dict_set ((k', v') # d) k v = (if k' = k then (k, v) # d else (k', v') # dict_set d k v)"

text \<open>\<^verbatim>\<open>d[k] += x\<close>: reads the key first, so it raises KeyError on a missing key.\<close>

definition dict_iadd :: "real pydict \<Rightarrow> string \<Rightarrow> real \<Rightarrow> real pydict option" where
  "dict_iadd d k x = do { v \<leftarrow> dict_get d k; Some (dict_set d k (v + x)) }"

definition dict_values :: "'v pydict \<Rightarrow> 'v list" where
  "dict_values d = map snd d"

definition dict_items :: "'v pydict \<Rightarrow> (string \<times> 'v) list" where
  "dict_items d = d"

text \<open>
  \<^verbatim>\<open>max(iterable, key=f)\<close>: the running maximum starts at the first item and is
  replaced only by an item whose key is strictly greater, so the first of several
  maximal items is returned. ValueError on an empty iterable.
\<close>

fun max_from :: "('a \<Rightarrow> real) \<Rightarrow> 'a \<Rightarrow> 'a list \<Rightarrow> 'a" where
  "max_from f best [] = best"
| "max_from f best (x # xs) = max_from f (if f x > f best then x else best) xs"

definition py_max_key :: "('a \<Rightarrow> real) \<Rightarrow> 'a list \<Rightarrow> 'a option" where
  "py_max_key f xs = (case xs of [] \<Rightarrow> None | x # rest \<Rightarrow> Some (max_from f x rest))"

definition py_max :: "real list \<Rightarrow> real option" where
  "py_max xs = py_max_key (\<lambda>x. x) xs"

text \<open>\<^verbatim>\<open>sum(iterable)\<close>: starts at 0 and adds from the left.\<close>

definition py_sum :: "real list \<Rightarrow> real" where
  "py_sum xs = foldl (+) 0 xs"

text \<open>\<^verbatim>\<open>x / y\<close>: ZeroDivisionError when the divisor is zero.\<close>

definition py_truediv :: "real \<Rightarrow> real \<Rightarrow> real option" where
  "py_truediv x y = (if y = 0 then None else Some (x / y))"

text \<open>A comprehension whose body may raise: the first exception ends it.\<close>

fun comprehension :: "('a \<Rightarrow> 'b option) \<Rightarrow> 'a list \<Rightarrow> 'b list option" where
  "comprehension f [] = Some []"
| "comprehension f (x # xs) = do { y \<leftarrow> f x; ys \<leftarrow> comprehension f xs; Some (y # ys) }"

subsection \<open>The data model\<close>

text \<open>
  \<^verbatim>\<open>SystemMetrics\<close> (a dataclass). The timestamp is a \<^verbatim>\<open>datetime\<close>, counted
  in microseconds since 0001-01-01 00:00:00.
\<close>

record SystemMetrics =
  timestamp :: int
  cpu_percent :: real
  cpu_per_core :: "real list"
  memory_percent :: real
  memory_used_gb :: real
  memory_available_gb :: real
  gpu_utilization :: real
  gpu_memory_percent :: real
  gpu_memory_used_gb :: real
  gpu_temperature :: real
  falcon_bms_cpu :: real
  falcon_bms_memory_mb :: real
  bottleneck :: string
  bottleneck_score :: "real pydict"

text \<open>
  \<^verbatim>\<open>collections.deque(maxlen=n)\<close>: \<^verbatim>\<open>append\<close> adds on the right and, when the
  length then exceeds \<open>maxlen\<close>, drops the leftmost item.
\<close>

record 'a deque =
  maxlen :: nat
  items :: "'a list"

definition deque_new :: "nat \<Rightarrow> 'a deque" where
  "deque_new n = \<lparr>maxlen = n, items = []\<rparr>"

definition deque_append :: "'a deque \<Rightarrow> 'a \<Rightarrow> 'a deque" where
  "deque_append d x =
     (let xs = items d @ [x]
      in d\<lparr>items := (if length xs > maxlen d then tl xs else xs)\<rparr>)"

text \<open>
  \<^verbatim>\<open>PerformanceMonitor\<close>: the fields that \<^verbatim>\<open>__init__\<close> sets, the thread handle
  apart. \<open>gpu_available\<close> is the module's \<^verbatim>\<open>GPUTIL_AVAILABLE\<close>, fixed when the
  module is imported.
\<close>

record PerformanceMonitor =
  sample_interval :: real
  history_size :: int
  metrics_history :: "SystemMetrics deque"
  running :: bool
  thresholds :: "real pydict"
  gpu_available :: bool

definition init_thresholds :: "real pydict" where
  "init_thresholds =
     [(''cpu_high'', 85), (''memory_high'', 85), (''gpu_high'', 90), (''gpu_memory_high'', 85)]"

text \<open>\<^verbatim>\<open>__init__\<close>: \<^verbatim>\<open>deque(maxlen=history_size)\<close> raises ValueError on a negative size.\<close>

definition PerformanceMonitor_init :: "real \<Rightarrow> int \<Rightarrow> bool \<Rightarrow> PerformanceMonitor option" where
  "PerformanceMonitor_init sample_interval' history_size' gputil_available =
     (if history_size' < 0 then None
      else Some \<lparr>sample_interval = sample_interval',
                 history_size = history_size',
                 metrics_history = deque_new (nat history_size'),
                 running = False,
                 thresholds = init_thresholds,
                 gpu_available = gputil_available\<rparr>)"

subsection \<open>The classifier: \<^verbatim>\<open>_analyze_bottleneck\<close>\<close>

text \<open>
  \<^verbatim>\<open>max(metrics.cpu_per_core) if metrics.cpu_per_core else 0\<close>, the first statement
  of both the classifier and the recommendation generator.
\<close>

definition max_core_usage :: "SystemMetrics \<Rightarrow> real option" where
  "max_core_usage metrics =
     (if cpu_per_core metrics \<noteq> [] then py_max (cpu_per_core metrics) else Some 0)"

text \<open>
  The classifier in four parts, each a run of consecutive statements of the one Python
  function, so that the value of \<^verbatim>\<open>scores\<close> between the parts can be named.
  \<open>score_buckets\<close> is the dictionary when control reaches the comment
  \<^verbatim>\<open># If no significant bottleneck detected\<close>: the raw buckets.
\<close>

definition score_buckets :: "PerformanceMonitor \<Rightarrow> SystemMetrics \<Rightarrow> real pydict option" where
  "score_buckets self metrics = do {
     let scores = [(''CPU'', 0), (''Memory'', 0), (''GPU'', 0), (''GPU_Memory'', 0), (''None'', 0)];
     max_core_usage \<leftarrow> max_core_usage metrics;
     scores \<leftarrow> (if max_core_usage > 85 then dict_iadd scores ''CPU'' 0.8
                else if max_core_usage > 70 then dict_iadd scores ''CPU'' 0.5
                else if max_core_usage > 60 then dict_iadd scores ''CPU'' 0.3
                else Some scores);
     cpu_high \<leftarrow> dict_get (thresholds self) ''cpu_high'';
     scores \<leftarrow> (if cpu_percent metrics > cpu_high
                then dict_iadd scores ''CPU'' ((cpu_percent metrics - cpu_high) / 30)
                else Some scores);
     scores \<leftarrow> (if falcon_bms_cpu metrics > 150 then dict_iadd scores ''CPU'' 0.4
                else if falcon_bms_cpu metrics > 100 then dict_iadd scores ''CPU'' 0.2
                else Some scores);
     memory_high \<leftarrow> dict_get (thresholds self) ''memory_high'';
     scores \<leftarrow> (if memory_percent metrics > memory_high
                then dict_iadd scores ''Memory'' ((memory_percent metrics - memory_high) / 15)
                else Some scores);
     (if gpu_available self then do {
        gpu_high \<leftarrow> dict_get (thresholds self) ''gpu_high'';
        scores \<leftarrow> (if gpu_utilization metrics > gpu_high
                   then dict_iadd scores ''GPU'' ((gpu_utilization metrics - gpu_high) / 10)
                   else Some scores);
        gpu_memory_high \<leftarrow> dict_get (thresholds self) ''gpu_memory_high'';
        (if gpu_memory_percent metrics > gpu_memory_high
         then dict_iadd scores ''GPU_Memory''
                ((gpu_memory_percent metrics - gpu_memory_high) / 15)
         else Some scores)
      } else Some scores)
   }"

text \<open>
  \<^verbatim>\<open>max_score = max(scores.values()); if max_score < 0.3: scores['None'] = 1.0\<close>.
  The maximum runs over all five values, the \<open>None\<close> entry (still 0) included.
\<close>

definition none_rule :: "real pydict \<Rightarrow> real pydict option" where
  "none_rule scores = do {
     max_score \<leftarrow> py_max (dict_values scores);
     Some (if max_score < 0.3 then dict_set scores ''None'' 1 else scores)
   }"

text \<open>\<^verbatim>\<open>total_score = sum(scores.values())\<close>, the sum the normalisation divides by.\<close>

definition total_score :: "real pydict \<Rightarrow> real" where
  "total_score scores = py_sum (dict_values scores)"

text \<open>
  \<^verbatim>\<open>if total_score > 0: scores = {k: v / total_score for k, v in scores.items()}\<close>.
  The keys of a dictionary are distinct, so the new dictionary has the old one's keys in
  the old order.
\<close>

definition normalize_scores :: "real pydict \<Rightarrow> real pydict option" where
  "normalize_scores scores =
     (if total_score scores > 0
      then comprehension
             (\<lambda>(k, v). do { q \<leftarrow> py_truediv v (total_score scores); Some (k, q) })
             (dict_items scores)
      else Some scores)"

text \<open>\<^verbatim>\<open>bottleneck = max(scores.items(), key=lambda x: x[1])[0]\<close>.\<close>

definition select_bottleneck :: "real pydict \<Rightarrow> string option" where
  "select_bottleneck scores = do {
     best \<leftarrow> py_max_key snd (dict_items scores);
     Some (fst best)
   }"

definition analyze_bottleneck ::
  "PerformanceMonitor \<Rightarrow> SystemMetrics \<Rightarrow> (string \<times> real pydict) option" where
  "analyze_bottleneck self metrics = do {
     scores \<leftarrow> score_buckets self metrics;
     scores \<leftarrow> none_rule scores;
     scores \<leftarrow> normalize_scores scores;
     bottleneck \<leftarrow> select_bottleneck scores;
     Some (bottleneck, scores)
   }"

subsection \<open>Sampling: \<^verbatim>\<open>_collect_metrics\<close> and \<^verbatim>\<open>_monitor_loop\<close>\<close>

text \<open>
  \<^verbatim>\<open>_collect_metrics\<close> reads the host through \<^verbatim>\<open>psutil\<close> and \<^verbatim>\<open>GPUtil\<close>;
  what it read is the argument \<open>reading\<close>. The record is built with an empty label and
  an empty score dictionary, classified, and the two fields are then assigned.
\<close>

definition collect_metrics :: "PerformanceMonitor \<Rightarrow> SystemMetrics \<Rightarrow> SystemMetrics option" where
  "collect_metrics self reading = do {
     let metrics = reading\<lparr>bottleneck := '''', bottleneck_score := []\<rparr>;
     (bottleneck', scores) \<leftarrow> analyze_bottleneck self metrics;
     Some (metrics\<lparr>bottleneck := bottleneck', bottleneck_score := scores\<rparr>)
   }"

text \<open>
  One pass of the loop body of \<^verbatim>\<open>_monitor_loop\<close>: an exception is caught and
  printed, and nothing is appended in that pass.
\<close>

definition monitor_iteration :: "PerformanceMonitor \<Rightarrow> SystemMetrics \<Rightarrow> PerformanceMonitor" where
  "monitor_iteration self reading =
     (case collect_metrics self reading of
        None \<Rightarrow> self
      | Some metrics \<Rightarrow> self\<lparr>metrics_history := deque_append (metrics_history self) metrics\<rparr>)"

text \<open>The passes made while \<^verbatim>\<open>self.running\<close> holds, one per reading.\<close>

definition monitor_loop :: "PerformanceMonitor \<Rightarrow> SystemMetrics list \<Rightarrow> PerformanceMonitor" where
  "monitor_loop self readings = foldl monitor_iteration self readings"

subsection \<open>The recommendation generator: \<^verbatim>\<open>_get_recommendations\<close>\<close>

text \<open>
  The format \<^verbatim>\<open>{x:.0f}\<close>: the sign, then the magnitude rounded to the nearest
  integer, a tie going to the even one, in decimal.
\<close>

fun decimal :: "nat \<Rightarrow> string" where
  "decimal n = (if n < 10 then [''0123456789'' ! n]
                else decimal (n div 10) @ [''0123456789'' ! (n mod 10)])"

declare decimal.simps [simp del]

definition round_half_even :: "real \<Rightarrow> int" where
  "round_half_even x =
     (let f = \<lfloor>x\<rfloor>; d = x - of_int f
      in if d < 1 / 2 then f else if d > 1 / 2 then f + 1
         else if even f then f else f + 1)"

definition format_0f :: "real \<Rightarrow> string" where
  "format_0f x = (if x < 0 then ''-'' else []) @ decimal (nat (round_half_even \<bar>x\<bar>))"

text \<open>
  The body assigns to no field of \<^verbatim>\<open>self\<close> or of \<^verbatim>\<open>metrics\<close>; the only
  object it changes is the list it returns.
\<close>

definition get_recommendations :: "PerformanceMonitor \<Rightarrow> SystemMetrics \<Rightarrow> string list option" where
  "get_recommendations self metrics = do {
     let recommendations = [];
     max_core_usage \<leftarrow> max_core_usage metrics;
     Some
      (if bottleneck metrics = ''CPU'' then
         (if max_core_usage > 80 then
            recommendations @
              [''Single-core bottleneck detected (Core at '' @ format_0f max_core_usage @ ''%)'',
               ''Falcon BMS is limited by single-threaded performance'',
               ''Consider overclocking your CPU for better single-core performance'',
               ''Lower CPU-intensive settings: AI traffic, ground objects, weather complexity'']
          else
            recommendations @
              [''CPU bottleneck detected - reduce CPU-intensive settings'',
               ''Close unnecessary background applications'',
               ''Lower AI traffic and ground object density'',
               ''Consider upgrading to a faster CPU''])
       else if bottleneck metrics = ''Memory'' then
         recommendations @
           [''Memory shortage detected - close unnecessary applications'',
            ''Consider adding more RAM to your system'',
            ''Lower texture quality in Falcon BMS settings'',
            ''Check for memory leaks in background processes'']
       else if bottleneck metrics = ''GPU'' then
         recommendations @
           [''GPU bottleneck - lower graphics settings in Falcon BMS'',
            ''Reduce anti-aliasing and post-processing effects'',
            ''Lower VR resolution or use dynamic resolution scaling'',
            ''Check GPU temperatures and fan curves'']
       else if bottleneck metrics = ''GPU_Memory'' then
         recommendations @
           [''GPU memory bottleneck - lower texture quality and resolution'',
            ''Reduce visual range and object density in VR'',
            ''Close other GPU-intensive applications'',
            ''Consider a GPU upgrade with more VRAM'']
       else
         (let recommendations = recommendations @
                [''System performance appears balanced. No immediate bottlenecks detected.'']
          in if max_core_usage > 60 then
               recommendations @
                 [''Note: Highest core usage is '' @ format_0f max_core_usage @
                  ''% - monitor for single-core limits'']
             else recommendations))
   }"

subsection \<open>The recommendation generator on an explicit store\<close>

text \<open>
  The same function once more, with the objects it touches held in a store, so that what
  it changes can be stated. An address is an index into the store; \<^verbatim>\<open>SystemMetrics\<close>
  objects, the monitor and lists of strings live there. \<^verbatim>\<open>recommendations = []\<close>
  allocates a new list at the next free address, and \<^verbatim>\<open>extend\<close> and \<^verbatim>\<open>append\<close> update
  the list they are called on in place. Reading an attribute of an object that does not
  have it raises AttributeError. The argument lists of \<^verbatim>\<open>extend\<close> and the formatted
  strings are temporaries that nothing refers to once the call is over; they are not
  stored.
\<close>

type_synonym addr = nat

datatype obj = ListObj "string list" | MetricsObj SystemMetrics | MonitorObj PerformanceMonitor

type_synonym store = "obj list"

definition store_get :: "store \<Rightarrow> addr \<Rightarrow> obj option" where
  "store_get h a = (if a < length h then Some (h ! a) else None)"

definition new_list :: "store \<Rightarrow> addr \<times> store" where
  "new_list h = (length h, h @ [ListObj []])"

definition list_extend :: "store \<Rightarrow> addr \<Rightarrow> string list \<Rightarrow> store option" where
  "list_extend h a xs =
     (case store_get h a of
        Some (ListObj ys) \<Rightarrow> Some (h[a := ListObj (ys @ xs)])
      | _ \<Rightarrow> None)"

definition list_append :: "store \<Rightarrow> addr \<Rightarrow> string \<Rightarrow> store option" where
  "list_append h a x =
     (case store_get h a of
        Some (ListObj ys) \<Rightarrow> Some (h[a := ListObj (ys @ [x])])
      | _ \<Rightarrow> None)"

definition read_cpu_per_core :: "store \<Rightarrow> addr \<Rightarrow> real list option" where
  "read_cpu_per_core h a =
     (case store_get h a of Some (MetricsObj m) \<Rightarrow> Some (cpu_per_core m) | _ \<Rightarrow> None)"

definition read_bottleneck :: "store \<Rightarrow> addr \<Rightarrow> string option" where
  "read_bottleneck h a =
     (case store_get h a of Some (MetricsObj m) \<Rightarrow> Some (bottleneck m) | _ \<Rightarrow> None)"

text \<open>
  \<open>self\<close> and \<open>metrics\<close> are the addresses of the monitor and of the snapshot; the result
  is the address of the list and the store when the function returns. The label is read
  at every comparison of the \<^verbatim>\<open>if\<close>/\<^verbatim>\<open>elif\<close> chain, as the source reads it.
\<close>

definition get_recommendations_store :: "addr \<Rightarrow> addr \<Rightarrow> store \<Rightarrow> (addr \<times> store) option" where
  "get_recommendations_store self metrics h = do {
     (recommendations, h) \<leftarrow> Some (new_list h);
     cpu_per_core \<leftarrow> read_cpu_per_core h metrics;
     max_core_usage \<leftarrow> (if cpu_per_core \<noteq> [] then py_max cpu_per_core else Some 0);
     label \<leftarrow> read_bottleneck h metrics;
     h \<leftarrow>
       (if label = ''CPU'' then
          (if max_core_usage > 80 then
             list_extend h recommendations
               [''Single-core bottleneck detected (Core at '' @ format_0f max_core_usage @ ''%)'',
                ''Falcon BMS is limited by single-threaded performance'',
                ''Consider overclocking your CPU for better single-core performance'',
                ''Lower CPU-intensive settings: AI traffic, ground objects, weather complexity'']
           else
             list_extend h recommendations
               [''CPU bottleneck detected - reduce CPU-intensive settings'',
                ''Close unnecessary background applications'',
                ''Lower AI traffic and ground object density'',
                ''Consider upgrading to a faster CPU''])
        else do {
          label \<leftarrow> read_bottleneck h metrics;
          (if label = ''Memory'' then
             list_extend h recommendations
               [''Memory shortage detected - close unnecessary applications'',
                ''Consider adding more RAM to your system'',
                ''Lower texture quality in Falcon BMS settings'',
                ''Check for memory leaks in background processes'']
           else do {
             label \<leftarrow> read_bottleneck h metrics;
             (if label = ''GPU'' then
                list_extend h recommendations
                  [''GPU bottleneck - lower graphics settings in Falcon BMS'',
                   ''Reduce anti-aliasing and post-processing effects'',
                   ''Lower VR resolution or use dynamic resolution scaling'',
                   ''Check GPU temperatures and fan curves'']
              else do {
                label \<leftarrow> read_bottleneck h metrics;
                (if label = ''GPU_Memory'' then
                   list_extend h recommendations
                     [''GPU memory bottleneck - lower texture quality and resolution'',
                      ''Reduce visual range and object density in VR'',
                      ''Close other GPU-intensive applications'',
                      ''Consider a GPU upgrade with more VRAM'']
                 else do {
                   h \<leftarrow> list_append h recommendations
                          ''System performance appears balanced. No immediate bottlenecks detected.'';
                   (if max_core_usage > 60 then
                      list_append h recommendations
                        (''Note: Highest core usage is '' @ format_0f max_core_usage @
                         ''% - monitor for single-core limits'')
                    else Some h)
                 })
              })
           })
        });
     Some (recommendations, h)
   }"

subsection \<open>The windowed analysis: \<^verbatim>\<open>get_bottleneck_analysis\<close>\<close>

text \<open>
  \<^verbatim>\<open>datetime.now() - timedelta(seconds=window_seconds)\<close>, in microseconds. A
  \<^verbatim>\<open>timedelta\<close> holds at most 999999999 days either way, and a \<^verbatim>\<open>datetime\<close>
  lies between 0001-01-01 00:00:00 and 9999-12-31 23:59:59.999999, 3652059 days later;
  both constructors raise OverflowError outside their range.
\<close>

definition timedelta_seconds :: "int \<Rightarrow> int option" where
  "timedelta_seconds s =
     (if - 999999999 \<le> s div 86400 \<and> s div 86400 \<le> 999999999
      then Some (s * 1000000) else None)"

definition datetime_max :: int where
  "datetime_max = 3652059 * 86400 * 1000000 - 1"

definition datetime_sub :: "int \<Rightarrow> int \<Rightarrow> int option" where
  "datetime_sub t delta =
     (if 0 \<le> t - delta \<and> t - delta \<le> datetime_max then Some (t - delta) else None)"

text \<open>\<^verbatim>\<open>d[k] += 1\<close> on a \<^verbatim>\<open>defaultdict(int)\<close>, \<^verbatim>\<open>d[k].append(x)\<close> on a \<^verbatim>\<open>defaultdict(list)\<close>.\<close>

definition defaultdict_incr :: "int pydict \<Rightarrow> string \<Rightarrow> int pydict" where
  "defaultdict_incr d k = dict_set d k ((case dict_get d k of None \<Rightarrow> 0 | Some c \<Rightarrow> c) + 1)"

definition defaultdict_append :: "real list pydict \<Rightarrow> string \<Rightarrow> real \<Rightarrow> real list pydict" where
  "defaultdict_append d k x =
     dict_set d k ((case dict_get d k of None \<Rightarrow> [] | Some xs \<Rightarrow> xs) @ [x])"

text \<open>\<^verbatim>\<open>xs[-1]\<close>: IndexError on an empty sequence.\<close>

definition py_last :: "'a list \<Rightarrow> 'a option" where
  "py_last xs = (if xs = [] then None else Some (last xs))"

text \<open>
  The sequence the analysis works on: the stored snapshots whose timestamp is at or
  after the cutoff, or the latest snapshot alone when there is none.
\<close>

definition recent_window :: "SystemMetrics deque \<Rightarrow> int \<Rightarrow> SystemMetrics list option" where
  "recent_window history cutoff_time = do {
     let recent_metrics = filter (\<lambda>m. timestamp m \<ge> cutoff_time) (items history);
     (if recent_metrics = [] then do { latest \<leftarrow> py_last (items history); Some [latest] }
      else Some recent_metrics)
   }"

record WindowSummary =
  current_bottleneck :: string
  bottleneck_confidence :: "real pydict"
  bottleneck_frequency :: "int pydict"
  current_metrics :: "real pydict"
  recommendations :: "string list"

text \<open>
  The returned dictionary is either \<^verbatim>\<open>{"error": ...}\<close> or the summary with its five
  fixed keys. \<open>now\<close> is what \<^verbatim>\<open>datetime.now()\<close> returns.
\<close>

datatype analysis_result = ErrorResult string | Summary WindowSummary

definition get_bottleneck_analysis ::
  "PerformanceMonitor \<Rightarrow> int \<Rightarrow> int \<Rightarrow> analysis_result option" where
  "get_bottleneck_analysis self now window_seconds =
     (if items (metrics_history self) = [] then Some (ErrorResult ''No metrics data available'')
      else do {
        delta \<leftarrow> timedelta_seconds window_seconds;
        cutoff_time \<leftarrow> datetime_sub now delta;
        recent_metrics \<leftarrow> recent_window (metrics_history self) cutoff_time;
        let bottleneck_counts =
              fold (\<lambda>metrics counts. defaultdict_incr counts (bottleneck metrics))
                recent_metrics [];
        let avg_scores =
              fold (\<lambda>metrics avg.
                      fold (\<lambda>(component, score) avg. defaultdict_append avg component score)
                        (dict_items (bottleneck_score metrics)) avg)
                recent_metrics [];
        final_scores \<leftarrow>
          comprehension
            (\<lambda>(component, scores). do {
               q \<leftarrow> py_truediv (py_sum scores) (real (length scores));
               Some (component, q) })
            (dict_items avg_scores);
        current \<leftarrow> py_last recent_metrics;
        recs \<leftarrow> get_recommendations self current;
        Some (Summary
          \<lparr>current_bottleneck = bottleneck current,
           bottleneck_confidence = final_scores,
           bottleneck_frequency = bottleneck_counts,
           current_metrics =
             [(''cpu_percent'', cpu_percent current),
              (''memory_percent'', memory_percent current),
              (''gpu_utilization'', gpu_utilization current),
              (''gpu_memory_percent'', gpu_memory_percent current),
              (''falcon_bms_cpu'', falcon_bms_cpu current),
              (''falcon_bms_memory_mb'', falcon_bms_memory_mb current)],
           recommendations = recs\<rparr>)
      })"

subsection \<open>Closed forms of the raw buckets\<close>

text \<open>
  What the classifier's additions amount to, bucket by bucket, under the thresholds that
  \<^verbatim>\<open>__init__\<close> sets; \<open>score_buckets_closed\<close> below proves that the code computes them.
\<close>

definition core_peak :: "SystemMetrics \<Rightarrow> real" where
  "core_peak metrics =
     (case cpu_per_core metrics of [] \<Rightarrow> 0 | x # xs \<Rightarrow> max_from (\<lambda>x. x) x xs)"

definition cpu_bucket :: "SystemMetrics \<Rightarrow> real" where
  "cpu_bucket metrics =
     (if core_peak metrics > 85 then 0.8 else if core_peak metrics > 70 then 0.5
      else if core_peak metrics > 60 then 0.3 else 0)
     + (if cpu_percent metrics > 85 then (cpu_percent metrics - 85) / 30 else 0)
     + (if falcon_bms_cpu metrics > 150 then 0.4
        else if falcon_bms_cpu metrics > 100 then 0.2 else 0)"

definition memory_bucket :: "SystemMetrics \<Rightarrow> real" where
  "memory_bucket metrics =
     (if memory_percent metrics > 85 then (memory_percent metrics - 85) / 15 else 0)"

definition gpu_bucket :: "PerformanceMonitor \<Rightarrow> SystemMetrics \<Rightarrow> real" where
  "gpu_bucket self metrics =
     (if gpu_available self \<and> gpu_utilization metrics > 90
      then (gpu_utilization metrics - 90) / 10 else 0)"

definition gpu_memory_bucket :: "PerformanceMonitor \<Rightarrow> SystemMetrics \<Rightarrow> real" where
  "gpu_memory_bucket self metrics =
     (if gpu_available self \<and> gpu_memory_percent metrics > 85
      then (gpu_memory_percent metrics - 85) / 15 else 0)"

text \<open>A score dictionary with the five labels in the order the classifier declares them.\<close>

definition five :: "real \<Rightarrow> real \<Rightarrow> real \<Rightarrow> real \<Rightarrow> real \<Rightarrow> real pydict" where
  "five a b g h n =
     [(''CPU'', a), (''Memory'', b), (''GPU'', g), (''GPU_Memory'', h), (''None'', n)]"

text \<open>The \<open>None\<close> bucket after the rule for it, the sum of the five buckets, and the
  normalised dictionary.\<close>

definition none_bucket :: "PerformanceMonitor \<Rightarrow> SystemMetrics \<Rightarrow> real" where
  "none_bucket self metrics =
     (if max (max (max (cpu_bucket metrics) (memory_bucket metrics)) (gpu_bucket self metrics))
           (gpu_memory_bucket self metrics) < 0.3
      then 1 else 0)"

definition bucket_total :: "PerformanceMonitor \<Rightarrow> SystemMetrics \<Rightarrow> real" where
  "bucket_total self metrics =
     cpu_bucket metrics + memory_bucket metrics + gpu_bucket self metrics
     + gpu_memory_bucket self metrics + none_bucket self metrics"

definition normalized :: "PerformanceMonitor \<Rightarrow> SystemMetrics \<Rightarrow> real pydict" where
  "normalized self metrics =
     five (cpu_bucket metrics / bucket_total self metrics)
          (memory_bucket metrics / bucket_total self metrics)
          (gpu_bucket self metrics / bucket_total self metrics)
          (gpu_memory_bucket self metrics / bucket_total self metrics)
          (none_bucket self metrics / bucket_total self metrics)"

text \<open>
  The selection as the specification words it: the label whose value is the maximum of
  the score map, the first in the map's order among equals.
\<close>

definition argmax_first_declared :: "real pydict \<Rightarrow> string option" where
  "argmax_first_declared scores =
     (case filter (\<lambda>kv. list_all (\<lambda>kv'. snd kv' \<le> snd kv) scores) scores of
        [] \<Rightarrow> None
      | kv # _ \<Rightarrow> Some (fst kv))"

text \<open>Sample inputs for the concrete instances below.\<close>

definition sample_monitor :: "nat \<Rightarrow> bool \<Rightarrow> PerformanceMonitor" where
  "sample_monitor capacity gpu =
     \<lparr>sample_interval = 1, history_size = int capacity,
      metrics_history = deque_new capacity, running = False,
      thresholds = init_thresholds, gpu_available = gpu\<rparr>"

definition sample_metrics ::
  "int \<Rightarrow> real list \<Rightarrow> real \<Rightarrow> real \<Rightarrow> real \<Rightarrow> real \<Rightarrow> SystemMetrics" where
  "sample_metrics t cores cpu mem gpu gpu_mem =
     \<lparr>timestamp = t, cpu_percent = cpu, cpu_per_core = cores, memory_percent = mem,
      memory_used_gb = 8, memory_available_gb = 8, gpu_utilization = gpu,
      gpu_memory_percent = gpu_mem, gpu_memory_used_gb = 4, gpu_temperature = 60,
      falcon_bms_cpu = 0, falcon_bms_memory_mb = 0, bottleneck = [],
      bottleneck_score = []\<rparr>"

subsection \<open>Facts about the built-ins\<close>

lemma py_sum_eq: "py_sum xs = sum_list xs"
proof -
  have "foldl (+) a xs = a + sum_list xs" for a :: real
    by (induction xs arbitrary: a) simp_all
  then show ?thesis by (simp add: py_sum_def)
qed

lemma max_from_id: "max_from (\<lambda>x. x) best xs = foldl max best xs"
  by (induction xs arbitrary: best) (simp_all add: max_def)

lemma max_from_split:
  "(\<forall>z\<in>set pre0. f z < f best) \<Longrightarrow> (\<forall>z\<in>set post0. f z \<le> f best) \<Longrightarrow>
   \<exists>pre post. pre0 @ best # post0 @ xs = pre @ max_from f best xs # post \<and>
     (\<forall>z\<in>set pre. f z < f (max_from f best xs)) \<and>
     (\<forall>z\<in>set post. f z \<le> f (max_from f best xs))"
proof (induction xs arbitrary: best pre0 post0)
  case Nil
  then show ?case by auto
next
  case (Cons x xs)
  show ?case
  proof (cases "f x > f best")
    case True
    have "\<forall>z\<in>set (pre0 @ best # post0). f z < f x"
      using Cons.prems True by fastforce
    moreover have "\<forall>z\<in>set []. f z \<le> f x" by simp
    ultimately obtain pre post where
      "(pre0 @ best # post0) @ x # [] @ xs = pre @ max_from f x xs # post"
      "\<forall>z\<in>set pre. f z < f (max_from f x xs)" "\<forall>z\<in>set post. f z \<le> f (max_from f x xs)"
      using Cons.IH [of "pre0 @ best # post0" x "[]"] by blast
    with True show ?thesis by auto
  next
    case False
    have "\<forall>z\<in>set (post0 @ [x]). f z \<le> f best"
      using Cons.prems False by auto
    then obtain pre post where
      "pre0 @ best # (post0 @ [x]) @ xs = pre @ max_from f best xs # post"
      "\<forall>z\<in>set pre. f z < f (max_from f best xs)" "\<forall>z\<in>set post. f z \<le> f (max_from f best xs)"
      using Cons.IH [of pre0 best "post0 @ [x]"] Cons.prems(1) by blast
    with False show ?thesis by auto
  qed
qed

lemma py_max_key_split:
  assumes "py_max_key f xs = Some m"
  shows "\<exists>pre post. xs = pre @ m # post \<and> (\<forall>z\<in>set pre. f z < f m) \<and> (\<forall>z\<in>set post. f z \<le> f m)"
proof -
  from assms obtain x rest where xs: "xs = x # rest" and m: "m = max_from f x rest"
    by (auto simp: py_max_key_def split: list.splits)
  show ?thesis
    using max_from_split [of "[]" f x "[]" rest] by (simp add: xs m)
qed

lemma first_maximal_filter:
  fixes f :: "'a \<Rightarrow> real"
  assumes "xs = pre @ m # post" "\<forall>z\<in>set pre. f z < f m" "\<forall>z\<in>set post. f z \<le> f m"
  shows "\<exists>rest. filter (\<lambda>x. list_all (\<lambda>y. f y \<le> f x) xs) xs = m # rest"
proof -
  have "filter (\<lambda>x. list_all (\<lambda>y. f y \<le> f x) xs) pre = []"
    using assms by (auto simp: filter_empty_conv list_all_iff)
  moreover have "list_all (\<lambda>y. f y \<le> f m) xs"
    using assms by (auto simp: list_all_iff intro: less_imp_le)
  ultimately show ?thesis
    by (simp add: assms(1))
qed

lemma select_bottleneck_argmax: "select_bottleneck scores = argmax_first_declared scores"
proof (cases scores)
  case Nil
  then show ?thesis
    by (simp add: select_bottleneck_def argmax_first_declared_def dict_items_def py_max_key_def)
next
  case (Cons kv rest)
  then obtain m where m: "py_max_key snd scores = Some m"
    by (simp add: py_max_key_def)
  from py_max_key_split [OF m] first_maximal_filter [of scores _ m _ snd]
  obtain tl' where "filter (\<lambda>x. list_all (\<lambda>y. snd y \<le> snd x) scores) scores = m # tl'"
    by blast
  with m show ?thesis
    by (simp add: select_bottleneck_def argmax_first_declared_def dict_items_def)
qed

subsection \<open>The classifier, part by part\<close>

lemma max_core_usage_peak: "max_core_usage metrics = Some (core_peak metrics)"
  by (simp add: max_core_usage_def core_peak_def py_max_def py_max_key_def split: list.splits)

lemma iadd_CPU: "dict_iadd (five a b g h n) ''CPU'' x = Some (five (a + x) b g h n)"
  by (simp add: dict_iadd_def dict_get_def five_def)
lemma iadd_Memory: "dict_iadd (five a b g h n) ''Memory'' x = Some (five a (b + x) g h n)"
  by (simp add: dict_iadd_def dict_get_def five_def)
lemma iadd_GPU: "dict_iadd (five a b g h n) ''GPU'' x = Some (five a b (g + x) h n)"
  by (simp add: dict_iadd_def dict_get_def five_def)
lemma iadd_GPU_Memory: "dict_iadd (five a b g h n) ''GPU_Memory'' x = Some (five a b g (h + x) n)"
  by (simp add: dict_iadd_def dict_get_def five_def)

lemma thresholds_get:
  "dict_get init_thresholds ''cpu_high'' = Some 85"
  "dict_get init_thresholds ''memory_high'' = Some 85"
  "dict_get init_thresholds ''gpu_high'' = Some 90"
  "dict_get init_thresholds ''gpu_memory_high'' = Some 85"
  by (simp_all add: dict_get_def init_thresholds_def)

lemma if_five: "(if c then Some (five a b g h n) else Some (five a' b' g' h' n')) =
   Some (five (if c then a else a') (if c then b else b') (if c then g else g') (if c then h else h') (if c then n else n'))"
  by simp

lemma score_buckets_closed:
  assumes "thresholds self = init_thresholds"
  shows "score_buckets self metrics =
    Some (five (cpu_bucket metrics) (memory_bucket metrics) (gpu_bucket self metrics) (gpu_memory_bucket self metrics) 0)"
proof -
  have start: "[(''CPU'', 0), (''Memory'', 0), (''GPU'', 0), (''GPU_Memory'', 0), (''None'', 0::real)] = five 0 0 0 0 0"
    by (simp add: five_def)
  show ?thesis
    unfolding score_buckets_def Let_def start assms max_core_usage_peak thresholds_get bind.bind_lunit
      iadd_CPU iadd_Memory iadd_GPU iadd_GPU_Memory if_five if_cancel
    by (simp add: cpu_bucket_def memory_bucket_def gpu_bucket_def gpu_memory_bucket_def)
qed

lemma py_max_five:
  "py_max (dict_values (five a b g h n)) = Some (max (max (max (max a b) g) h) n)"
  by (simp add: py_max_def py_max_key_def dict_values_def five_def max_from_id)

lemma none_rule_five:
  "none_rule (five a b g h n) =
     Some (five a b g h (if max (max (max (max a b) g) h) n < 0.3 then 1 else n))"
  unfolding none_rule_def py_max_five by (simp add: five_def)

lemma total_score_five: "total_score (five a b g h n) = a + b + g + h + n"
  by (simp add: total_score_def py_sum_def dict_values_def five_def)

lemma normalize_five:
  assumes "0 < a + b + g + h + n"
  shows "normalize_scores (five a b g h n) =
     Some (five (a / (a + b + g + h + n)) (b / (a + b + g + h + n)) (g / (a + b + g + h + n))
             (h / (a + b + g + h + n)) (n / (a + b + g + h + n)))"
  using assms unfolding normalize_scores_def total_score_five
  by (simp add: five_def dict_items_def py_truediv_def)

lemma normalize_five_zero:
  assumes "\<not> 0 < a + b + g + h + n"
  shows "normalize_scores (five a b g h n) = Some (five a b g h n)"
  using assms unfolding normalize_scores_def total_score_five by simp

lemma cpu_bucket_nonneg: "0 \<le> cpu_bucket metrics"
proof -
  have "0 \<le> (if core_peak metrics > 85 then 0.8 else if core_peak metrics > 70 then 0.5
      else if core_peak metrics > 60 then 0.3 else (0::real))" by simp
  moreover have "0 \<le> (if cpu_percent metrics > 85 then (cpu_percent metrics - 85) / 30 else 0)"
    by simp
  moreover have "0 \<le> (if falcon_bms_cpu metrics > 150 then 0.4
        else if falcon_bms_cpu metrics > 100 then 0.2 else (0::real))" by simp
  ultimately show ?thesis unfolding cpu_bucket_def by linarith
qed

lemma memory_bucket_nonneg: "0 \<le> memory_bucket metrics"
  by (simp add: memory_bucket_def)

lemma gpu_bucket_nonneg: "0 \<le> gpu_bucket self metrics"
  by (simp add: gpu_bucket_def)

lemma gpu_memory_bucket_nonneg: "0 \<le> gpu_memory_bucket self metrics"
  by (simp add: gpu_memory_bucket_def)

lemma none_bucket_cases: "none_bucket self metrics = 0 \<or> none_bucket self metrics = 1"
  by (simp add: none_bucket_def)

lemma none_bucket_nonneg: "0 \<le> none_bucket self metrics"
  by (simp add: none_bucket_def)

lemma bucket_total_pos: "0 < bucket_total self metrics"
proof (cases "none_bucket self metrics = 1")
  case True
  then show ?thesis
    using cpu_bucket_nonneg [of metrics] memory_bucket_nonneg [of metrics]
      gpu_bucket_nonneg [of self metrics] gpu_memory_bucket_nonneg [of self metrics]
    unfolding bucket_total_def by linarith
next
  case False
  then have "\<not> max (max (max (cpu_bucket metrics) (memory_bucket metrics)) (gpu_bucket self metrics))
           (gpu_memory_bucket self metrics) < 0.3"
    by (simp add: none_bucket_def split: if_splits)
  then have "0 < cpu_bucket metrics + memory_bucket metrics + gpu_bucket self metrics
     + gpu_memory_bucket self metrics"
    using cpu_bucket_nonneg [of metrics] memory_bucket_nonneg [of metrics]
      gpu_bucket_nonneg [of self metrics] gpu_memory_bucket_nonneg [of self metrics]
    by (simp add: max_def split: if_splits)
  then show ?thesis
    using none_bucket_nonneg [of self metrics] unfolding bucket_total_def by linarith
qed

lemma none_rule_closed:
  "none_rule (five (cpu_bucket metrics) (memory_bucket metrics) (gpu_bucket self metrics)
       (gpu_memory_bucket self metrics) 0) =
   Some (five (cpu_bucket metrics) (memory_bucket metrics) (gpu_bucket self metrics)
       (gpu_memory_bucket self metrics) (none_bucket self metrics))"
proof -
  have "max (max (max (max (cpu_bucket metrics) (memory_bucket metrics)) (gpu_bucket self metrics))
           (gpu_memory_bucket self metrics)) 0 =
        max (max (max (cpu_bucket metrics) (memory_bucket metrics)) (gpu_bucket self metrics))
           (gpu_memory_bucket self metrics)"
    using cpu_bucket_nonneg [of metrics] by (simp add: max_def)
  then show ?thesis
    unfolding none_rule_five none_bucket_def by simp
qed

lemma normalize_closed:
  "normalize_scores (five (cpu_bucket metrics) (memory_bucket metrics) (gpu_bucket self metrics)
       (gpu_memory_bucket self metrics) (none_bucket self metrics)) =
   Some (normalized self metrics)"
  using bucket_total_pos [of self metrics]
  unfolding normalized_def bucket_total_def by (rule normalize_five)

lemma argmax_five_Some: "\<exists>l. argmax_first_declared (five a b g h n) = Some l"
proof -
  obtain m where "py_max_key snd (five a b g h n) = Some m"
    by (simp add: py_max_key_def five_def)
  then have "select_bottleneck (five a b g h n) = Some (fst m)"
    by (simp add: select_bottleneck_def dict_items_def)
  then show ?thesis by (simp add: select_bottleneck_argmax)
qed

lemma analyze_closed:
  assumes "thresholds self = init_thresholds"
  shows "analyze_bottleneck self metrics =
     map_option (\<lambda>l. (l, normalized self metrics)) (argmax_first_declared (normalized self metrics))"
  unfolding analyze_bottleneck_def score_buckets_closed [OF assms] bind.bind_lunit
    none_rule_closed normalize_closed select_bottleneck_argmax
  by (cases "argmax_first_declared (normalized self metrics)") simp_all

lemma analyze_total:
  assumes "thresholds self = init_thresholds"
  shows "\<exists>l. analyze_bottleneck self metrics = Some (l, normalized self metrics)
           \<and> argmax_first_declared (normalized self metrics) = Some l"
proof -
  obtain l where "argmax_first_declared (normalized self metrics) = Some l"
    unfolding normalized_def using argmax_five_Some by blast
  then show ?thesis by (simp add: analyze_closed [OF assms])
qed

lemma sample_thresholds: "thresholds (sample_monitor capacity gpu) = init_thresholds"
  by (simp add: sample_monitor_def)

lemma normalized_keys:
  "map fst (normalized self metrics) = [''CPU'', ''Memory'', ''GPU'', ''GPU_Memory'', ''None'']"
  by (simp add: normalized_def five_def)

lemma analyze_ignores_label:
  "analyze_bottleneck self (metrics\<lparr>bottleneck := l, bottleneck_score := s\<rparr>) =
   analyze_bottleneck self metrics"
  by (simp add: analyze_bottleneck_def score_buckets_def max_core_usage_def cong: if_cong)

lemma collect_metrics_closed:
  assumes "thresholds self = init_thresholds"
    and "analyze_bottleneck self reading = Some (l, scores)"
  shows "collect_metrics self reading = Some (reading\<lparr>bottleneck := l, bottleneck_score := scores\<rparr>)"
  using assms(2) by (simp add: collect_metrics_def analyze_ignores_label)

subsection \<open>The claims about the classifier\<close>

text \<open>
  Claim C1. Under the thresholds that \<^verbatim>\<open>__init__\<close> sets, the classifier returns for
  every snapshot a label and a score map over the five labels in their declared order
  CPU, Memory, GPU, GPU_Memory, None, and the label is the one with the maximum value in
  that map, the first in that order among equal values. The snapshot that
  \<^verbatim>\<open>_collect_metrics\<close> stores carries that label and that map.
\<close>

theorem bottleneck_is_first_argmax:
  assumes "thresholds self = init_thresholds"
  shows "(\<exists>l scores. analyze_bottleneck self metrics = Some (l, scores) \<and>
            map fst scores = [''CPU'', ''Memory'', ''GPU'', ''GPU_Memory'', ''None''] \<and>
            argmax_first_declared scores = Some l) \<and>
         (\<exists>snapshot. collect_metrics self metrics = Some snapshot \<and>
            argmax_first_declared (bottleneck_score snapshot) = Some (bottleneck snapshot))"
proof -
  obtain l where l: "analyze_bottleneck self metrics = Some (l, normalized self metrics)"
      "argmax_first_declared (normalized self metrics) = Some l"
    using analyze_total [OF assms] by blast
  have "collect_metrics self metrics =
      Some (metrics\<lparr>bottleneck := l, bottleneck_score := normalized self metrics\<rparr>)"
    by (rule collect_metrics_closed [OF assms l(1)])
  with l show ?thesis by (simp add: normalized_keys)
qed

theorem bottleneck_is_first_argmax_witness:
  "thresholds (sample_monitor 300 True) = init_thresholds \<and>
   analyze_bottleneck (sample_monitor 300 True) (sample_metrics 0 [40, 75] 50 40 95 0) =
     Some (''CPU'', [(''CPU'', 1 / 2), (''Memory'', 0), (''GPU'', 1 / 2), (''GPU_Memory'', 0),
                    (''None'', 0)]) \<and>
   argmax_first_declared
     [(''CPU'', 1 / 2), (''Memory'', 0), (''GPU'', 1 / 2), (''GPU_Memory'', 0), (''None'', 0)] =
     Some ''CPU''"
proof -
  have h: "thresholds (sample_monitor 300 True) = init_thresholds"
    by (rule sample_thresholds)
  have v: "analyze_bottleneck (sample_monitor 300 True) (sample_metrics 0 [40, 75] 50 40 95 0) =
     Some (''CPU'', [(''CPU'', 1 / 2), (''Memory'', 0), (''GPU'', 1 / 2), (''GPU_Memory'', 0),
                    (''None'', 0)])"
    by (simp add: analyze_bottleneck_def score_buckets_def none_rule_def normalize_scores_def
        select_bottleneck_def sample_monitor_def sample_metrics_def init_thresholds_def
        max_core_usage_def py_max_def py_max_key_def dict_iadd_def dict_get_def
        dict_values_def dict_items_def total_score_def py_sum_def py_truediv_def)
  show ?thesis
    using bottleneck_is_first_argmax [OF h, of "sample_metrics 0 [40, 75] 50 40 95 0"] h v
    by auto
qed

lemma sample_eval:
  "analyze_bottleneck (sample_monitor 300 True) (sample_metrics 0 [40, 75] 50 95 95 0) =
     Some (''Memory'', five (3 / 10) (2 / 5) (3 / 10) 0 0)"
  by (simp add: analyze_bottleneck_def score_buckets_def none_rule_def normalize_scores_def
        select_bottleneck_def sample_monitor_def sample_metrics_def init_thresholds_def
        max_core_usage_def py_max_def py_max_key_def dict_iadd_def dict_get_def
        dict_values_def dict_items_def total_score_def py_sum_def py_truediv_def five_def)

lemma normalized_range:
  "list_all (\<lambda>kv. 0 \<le> snd kv \<and> snd kv \<le> 1) (normalized self metrics)"
proof -
  let ?t = "bucket_total self metrics"
  have t: "0 < ?t" by (rule bucket_total_pos)
  have nn: "0 \<le> cpu_bucket metrics" "0 \<le> memory_bucket metrics" "0 \<le> gpu_bucket self metrics"
      "0 \<le> gpu_memory_bucket self metrics" "0 \<le> none_bucket self metrics"
    by (rule cpu_bucket_nonneg memory_bucket_nonneg gpu_bucket_nonneg gpu_memory_bucket_nonneg
        none_bucket_nonneg)+
  have le: "cpu_bucket metrics \<le> ?t" "memory_bucket metrics \<le> ?t" "gpu_bucket self metrics \<le> ?t"
      "gpu_memory_bucket self metrics \<le> ?t" "none_bucket self metrics \<le> ?t"
    using nn unfolding bucket_total_def by linarith+
  show ?thesis
    using t nn le by (simp add: normalized_def five_def)
qed

lemma normalized_sum: "py_sum (dict_values (normalized self metrics)) = 1"
proof -
  let ?t = "bucket_total self metrics"
  have t: "?t \<noteq> 0" using bucket_total_pos [of self metrics] by simp
  have "py_sum (dict_values (normalized self metrics)) =
      (cpu_bucket metrics + memory_bucket metrics + gpu_bucket self metrics
       + gpu_memory_bucket self metrics + none_bucket self metrics) / ?t"
    by (simp add: normalized_def five_def dict_values_def py_sum_def add_divide_distrib)
  also have "\<dots> = ?t / ?t" by (simp add: bucket_total_def)
  also have "\<dots> = 1" using t by simp
  finally show ?thesis .
qed

text \<open>
  Claim C2. For every input snapshot the score map that the classifier returns holds
  exactly the five labels CPU, Memory, GPU, GPU_Memory, None, every value lies between 0
  and 1, and the values sum to 1. (The sum of the buckets is never zero, so the
  condition of the claim always holds; the sum is exact in real arithmetic.)
\<close>

theorem scores_normalised:
  assumes "thresholds self = init_thresholds"
  shows "\<exists>l scores. analyze_bottleneck self metrics = Some (l, scores) \<and>
            map fst scores = [''CPU'', ''Memory'', ''GPU'', ''GPU_Memory'', ''None''] \<and>
            list_all (\<lambda>kv. 0 \<le> snd kv \<and> snd kv \<le> 1) scores \<and>
            py_sum (dict_values scores) = 1"
proof -
  obtain l where "analyze_bottleneck self metrics = Some (l, normalized self metrics)"
    using analyze_total [OF assms] by blast
  then show ?thesis
    using normalized_keys normalized_range normalized_sum by blast
qed

theorem scores_normalised_witness:
  "thresholds (sample_monitor 300 True) = init_thresholds \<and>
   analyze_bottleneck (sample_monitor 300 True) (sample_metrics 0 [40, 75] 50 95 95 0) =
     Some (''Memory'', [(''CPU'', 3 / 10), (''Memory'', 2 / 5), (''GPU'', 3 / 10),
                       (''GPU_Memory'', 0), (''None'', 0)]) \<and>
   py_sum (dict_values [(''CPU'', 3 / 10), (''Memory'', 2 / 5), (''GPU'', 3 / 10),
                        (''GPU_Memory'', 0), (''None'', 0 :: real)]) = 1"
proof -
  have h: "thresholds (sample_monitor 300 True) = init_thresholds"
    by (rule sample_thresholds)
  show ?thesis
    using scores_normalised [OF h, of "sample_metrics 0 [40, 75] 50 95 95 0"] h
    by (auto simp: sample_eval five_def)
qed

lemma get_five:
  "dict_get (five a b g h n) ''CPU'' = Some a"
  "dict_get (five a b g h n) ''Memory'' = Some b"
  "dict_get (five a b g h n) ''GPU'' = Some g"
  "dict_get (five a b g h n) ''GPU_Memory'' = Some h"
  "dict_get (five a b g h n) ''None'' = Some n"
  by (simp_all add: dict_get_def five_def)

lemma gpu_buckets_unavailable:
  "\<not> gpu_available self \<Longrightarrow> gpu_bucket self metrics = 0"
  "\<not> gpu_available self \<Longrightarrow> gpu_memory_bucket self metrics = 0"
  by (simp_all add: gpu_bucket_def gpu_memory_bucket_def)

lemma buckets_ignore_gpu_fields:
  "cpu_bucket (metrics\<lparr>gpu_utilization := u, gpu_memory_percent := p\<rparr>) = cpu_bucket metrics"
  "memory_bucket (metrics\<lparr>gpu_utilization := u, gpu_memory_percent := p\<rparr>) = memory_bucket metrics"
  by (simp_all add: cpu_bucket_def memory_bucket_def core_peak_def)

text \<open>
  Claim C3. When the GPU is unavailable, the GPU and GPU_Memory buckets receive no
  contribution: they are 0 when the additions are done, whatever \<open>gpu_utilization\<close> and
  \<open>gpu_memory_percent\<close> the snapshot holds, and so are their normalised scores.
\<close>

theorem gpu_unavailable_no_contribution:
  assumes "thresholds self = init_thresholds" and "\<not> gpu_available self"
  shows "\<exists>raw l scores.
           score_buckets self metrics = Some raw \<and>
           dict_get raw ''GPU'' = Some 0 \<and> dict_get raw ''GPU_Memory'' = Some 0 \<and>
           score_buckets self (metrics\<lparr>gpu_utilization := u, gpu_memory_percent := p\<rparr>) = Some raw \<and>
           analyze_bottleneck self metrics = Some (l, scores) \<and>
           dict_get scores ''GPU'' = Some 0 \<and> dict_get scores ''GPU_Memory'' = Some 0"
proof -
  obtain l where l: "analyze_bottleneck self metrics = Some (l, normalized self metrics)"
    using analyze_total [OF assms(1)] by blast
  have g: "dict_get (normalized self metrics) ''GPU'' = Some 0"
      "dict_get (normalized self metrics) ''GPU_Memory'' = Some 0"
    by (simp_all add: normalized_def get_five gpu_buckets_unavailable [OF assms(2)])
  have raw: "score_buckets self metrics =
      Some (five (cpu_bucket metrics) (memory_bucket metrics) 0 0 0)"
    by (simp add: score_buckets_closed [OF assms(1)] gpu_buckets_unavailable [OF assms(2)])
  have raw': "score_buckets self (metrics\<lparr>gpu_utilization := u, gpu_memory_percent := p\<rparr>) =
      Some (five (cpu_bucket metrics) (memory_bucket metrics) 0 0 0)"
    by (simp add: score_buckets_closed [OF assms(1)] gpu_buckets_unavailable [OF assms(2)]
        buckets_ignore_gpu_fields)
  show ?thesis
    using l g raw raw' get_five(3,4) by blast
qed

theorem gpu_unavailable_no_contribution_witness:
  "thresholds (sample_monitor 300 False) = init_thresholds \<and>
   gpu_available (sample_monitor 300 False) = False \<and>
   score_buckets (sample_monitor 300 False) (sample_metrics 0 [40, 75] 50 95 95 95) =
     Some [(''CPU'', 1 / 2), (''Memory'', 2 / 3), (''GPU'', 0), (''GPU_Memory'', 0), (''None'', 0)] \<and>
   analyze_bottleneck (sample_monitor 300 False) (sample_metrics 0 [40, 75] 50 95 95 95) =
     Some (''Memory'', [(''CPU'', 3 / 7), (''Memory'', 4 / 7), (''GPU'', 0), (''GPU_Memory'', 0),
                       (''None'', 0)])"
proof -
  have h: "thresholds (sample_monitor 300 False) = init_thresholds"
    by (rule sample_thresholds)
  have g: "\<not> gpu_available (sample_monitor 300 False)"
    by (simp add: sample_monitor_def)
  have r: "score_buckets (sample_monitor 300 False) (sample_metrics 0 [40, 75] 50 95 95 95) =
     Some [(''CPU'', 1 / 2), (''Memory'', 2 / 3), (''GPU'', 0), (''GPU_Memory'', 0), (''None'', 0)]"
    by (simp add: score_buckets_def sample_monitor_def sample_metrics_def init_thresholds_def
        max_core_usage_def py_max_def py_max_key_def dict_iadd_def dict_get_def)
  have v: "analyze_bottleneck (sample_monitor 300 False) (sample_metrics 0 [40, 75] 50 95 95 95) =
     Some (''Memory'', [(''CPU'', 3 / 7), (''Memory'', 4 / 7), (''GPU'', 0), (''GPU_Memory'', 0),
                       (''None'', 0)])"
    unfolding analyze_bottleneck_def r
    by (simp add: none_rule_def normalize_scores_def select_bottleneck_def py_max_def
        py_max_key_def dict_values_def dict_items_def total_score_def py_sum_def py_truediv_def)
  show ?thesis
    using gpu_unavailable_no_contribution [OF h g,
        of "sample_metrics 0 [40, 75] 50 95 95 95" 0 0] h g r v
    by auto
qed





lemma core_peak_of: "max_core_usage metrics = Some x \<Longrightarrow> core_peak metrics = x"
  by (simp add: max_core_usage_peak)

text \<open>
  Claim C7. With a maximum single-core usage of 90, an overall CPU of 50, a target
  process CPU of 0 and memory and GPU inputs below their thresholds, the CPU bucket is
  0.8 before normalisation and the other buckets are 0, the rule for \<open>None\<close> leaves the
  scores as they are, and the result is the label CPU with the normalised CPU score 1.
\<close>

theorem cpu_tier_example:
  assumes "thresholds self = init_thresholds"
    and "max_core_usage metrics = Some 90"
    and "cpu_percent metrics = 50"
    and "falcon_bms_cpu metrics = 0"
    and "memory_percent metrics < 85"
    and "gpu_utilization metrics < 90"
    and "gpu_memory_percent metrics < 85"
  shows "score_buckets self metrics =
           Some [(''CPU'', 0.8), (''Memory'', 0), (''GPU'', 0), (''GPU_Memory'', 0), (''None'', 0)] \<and>
         none_rule [(''CPU'', 0.8), (''Memory'', 0), (''GPU'', 0), (''GPU_Memory'', 0), (''None'', 0)] =
           Some [(''CPU'', 0.8), (''Memory'', 0), (''GPU'', 0), (''GPU_Memory'', 0), (''None'', 0)] \<and>
         analyze_bottleneck self metrics =
           Some (''CPU'', [(''CPU'', 1), (''Memory'', 0), (''GPU'', 0), (''GPU_Memory'', 0),
                          (''None'', 0)])"
proof -
  have b: "cpu_bucket metrics = 0.8" "memory_bucket metrics = 0" "gpu_bucket self metrics = 0"
      "gpu_memory_bucket self metrics = 0"
    using assms(3-7) core_peak_of [OF assms(2)]
    by (simp_all add: cpu_bucket_def memory_bucket_def gpu_bucket_def gpu_memory_bucket_def)
  have r: "score_buckets self metrics =
           Some [(''CPU'', 0.8), (''Memory'', 0), (''GPU'', 0), (''GPU_Memory'', 0), (''None'', 0)]"
    unfolding score_buckets_closed [OF assms(1)] b by (simp add: five_def)
  have n: "none_rule [(''CPU'', 0.8), (''Memory'', 0), (''GPU'', 0), (''GPU_Memory'', 0), (''None'', 0)] =
           Some [(''CPU'', 0.8), (''Memory'', 0), (''GPU'', 0), (''GPU_Memory'', 0), (''None'', 0)]"
    by (simp add: none_rule_def py_max_def py_max_key_def dict_values_def)
  have a: "analyze_bottleneck self metrics =
           Some (''CPU'', [(''CPU'', 1), (''Memory'', 0), (''GPU'', 0), (''GPU_Memory'', 0),
                          (''None'', 0)])"
    unfolding analyze_bottleneck_def r bind.bind_lunit n
    by (simp add: normalize_scores_def select_bottleneck_def py_max_key_def dict_values_def
        dict_items_def total_score_def py_sum_def py_truediv_def)
  show ?thesis using r n a by simp
qed

theorem cpu_tier_example_witness:
  "thresholds (sample_monitor 300 True) = init_thresholds \<and>
   max_core_usage (sample_metrics 0 [20, 90, 35] 50 40 10 10) = Some 90 \<and>
   cpu_percent (sample_metrics 0 [20, 90, 35] 50 40 10 10) = 50 \<and>
   falcon_bms_cpu (sample_metrics 0 [20, 90, 35] 50 40 10 10) = 0 \<and>
   memory_percent (sample_metrics 0 [20, 90, 35] 50 40 10 10) < 85 \<and>
   gpu_utilization (sample_metrics 0 [20, 90, 35] 50 40 10 10) < 90 \<and>
   gpu_memory_percent (sample_metrics 0 [20, 90, 35] 50 40 10 10) < 85 \<and>
   analyze_bottleneck (sample_monitor 300 True) (sample_metrics 0 [20, 90, 35] 50 40 10 10) =
     Some (''CPU'', [(''CPU'', 1), (''Memory'', 0), (''GPU'', 0), (''GPU_Memory'', 0), (''None'', 0)])"
proof -
  have h: "thresholds (sample_monitor 300 True) = init_thresholds"
    by (rule sample_thresholds)
  have m: "max_core_usage (sample_metrics 0 [20, 90, 35] 50 40 10 10) = Some 90"
    by (simp add: max_core_usage_def sample_metrics_def py_max_def py_max_key_def)
  have f: "cpu_percent (sample_metrics 0 [20, 90, 35] 50 40 10 10) = 50"
    "falcon_bms_cpu (sample_metrics 0 [20, 90, 35] 50 40 10 10) = 0"
    "memory_percent (sample_metrics 0 [20, 90, 35] 50 40 10 10) < 85"
    "gpu_utilization (sample_metrics 0 [20, 90, 35] 50 40 10 10) < 90"
    "gpu_memory_percent (sample_metrics 0 [20, 90, 35] 50 40 10 10) < 85"
    by (simp_all add: sample_metrics_def)
  show ?thesis
    using cpu_tier_example [OF h m f] h m f by simp
qed

lemma argmax_five_None:
  assumes "a < n" "b < n" "g < n" "h < n"
  shows "argmax_first_declared (five a b g h n) = Some ''None''"
  using assms by (simp add: argmax_first_declared_def five_def)

lemma argmax_five_other:
  assumes "n < a \<or> n < b \<or> n < g \<or> n < h"
  shows "argmax_first_declared (five a b g h n) \<noteq> Some ''None''"
proof -
  obtain m where m: "py_max_key snd (five a b g h n) = Some m"
    by (simp add: py_max_key_def five_def)
  from py_max_key_split [OF m] obtain pre post where
    sp: "five a b g h n = pre @ m # post" "\<forall>z\<in>set post. snd z \<le> snd m"
      "\<forall>z\<in>set pre. snd z < snd m"
    by blast
  have "m \<in> set (five a b g h n)" using sp(1) by simp
  have all: "\<forall>z\<in>set (five a b g h n). snd z \<le> snd m"
    using sp by (auto intro: less_imp_le)
  then have "a \<le> snd m" "b \<le> snd m" "g \<le> snd m" "h \<le> snd m"
    by (simp_all add: five_def)
  with assms have "n < snd m" by linarith
  with \<open>m \<in> set (five a b g h n)\<close> have "fst m \<noteq> ''None''"
    by (auto simp: five_def)
  moreover have "argmax_first_declared (five a b g h n) = Some (fst m)"
    using m by (simp add: select_bottleneck_argmax [symmetric] select_bottleneck_def dict_items_def)
  ultimately show ?thesis by simp
qed


text \<open>
  Claim C9. For every input snapshot the classifier selects the label None exactly when
  the maximum of the four raw buckets CPU, Memory, GPU, GPU_Memory is strictly below 0.3.
  In that case the rule sets the \<open>None\<close> bucket to 1 and leaves the other buckets as
  they are, so the normalised \<open>None\<close> score is below 1 exactly when one of them is not
  zero.
\<close>

theorem none_label_iff_all_below:
  assumes "thresholds self = init_thresholds"
  shows "\<exists>a b g h l scores nv.
           score_buckets self metrics =
             Some [(''CPU'', a), (''Memory'', b), (''GPU'', g), (''GPU_Memory'', h), (''None'', 0)] \<and>
           analyze_bottleneck self metrics = Some (l, scores) \<and>
           dict_get scores ''None'' = Some nv \<and>
           (l = ''None'' \<longleftrightarrow> max (max (max a b) g) h < 0.3) \<and>
           (max (max (max a b) g) h < 0.3 \<longrightarrow>
              none_rule [(''CPU'', a), (''Memory'', b), (''GPU'', g), (''GPU_Memory'', h), (''None'', 0)] =
                Some [(''CPU'', a), (''Memory'', b), (''GPU'', g), (''GPU_Memory'', h), (''None'', 1)] \<and>
              (nv < 1 \<longleftrightarrow> a \<noteq> 0 \<or> b \<noteq> 0 \<or> g \<noteq> 0 \<or> h \<noteq> 0))"
proof -
  define a where "a = cpu_bucket metrics"
  define b where "b = memory_bucket metrics"
  define g where "g = gpu_bucket self metrics"
  define h where "h = gpu_memory_bucket self metrics"
  define n where "n = none_bucket self metrics"
  define t where "t = bucket_total self metrics"
  have nn: "0 \<le> a" "0 \<le> b" "0 \<le> g" "0 \<le> h"
    unfolding a_def b_def g_def h_def
    by (rule cpu_bucket_nonneg memory_bucket_nonneg gpu_bucket_nonneg gpu_memory_bucket_nonneg)+
  have n: "n = (if max (max (max a b) g) h < 0.3 then 1 else 0)"
    unfolding n_def a_def b_def g_def h_def by (simp add: none_bucket_def)
  have t: "t = a + b + g + h + n" "0 < t"
    unfolding t_def a_def b_def g_def h_def n_def
    by (simp add: bucket_total_def, rule bucket_total_pos)
  have norm: "normalized self metrics = five (a / t) (b / t) (g / t) (h / t) (n / t)"
    unfolding a_def b_def g_def h_def n_def t_def by (simp add: normalized_def)
  obtain l where l: "analyze_bottleneck self metrics = Some (l, normalized self metrics)"
      "argmax_first_declared (normalized self metrics) = Some l"
    using analyze_total [OF assms] by blast
  have raw: "score_buckets self metrics =
      Some [(''CPU'', a), (''Memory'', b), (''GPU'', g), (''GPU_Memory'', h), (''None'', 0)]"
    unfolding a_def b_def g_def h_def by (simp add: score_buckets_closed [OF assms] five_def)
  have nv: "dict_get (normalized self metrics) ''None'' = Some (n / t)"
    by (simp add: norm get_five)
  have label: "l = ''None'' \<longleftrightarrow> max (max (max a b) g) h < 0.3"
  proof (cases "max (max (max a b) g) h < 0.3")
    case True
    then have "a < n" "b < n" "g < n" "h < n"
      by (simp_all add: n)
    then have "a / t < n / t" "b / t < n / t" "g / t < n / t" "h / t < n / t"
      using t(2) by (simp_all add: divide_strict_right_mono)
    then have "argmax_first_declared (normalized self metrics) = Some ''None''"
      unfolding norm by (rule argmax_five_None)
    with l(2) True show ?thesis by simp
  next
    case False
    then have n0: "n = 0" by (simp add: n)
    from False have "0 < a \<or> 0 < b \<or> 0 < g \<or> 0 < h"
      by (auto simp: max_def split: if_splits)
    then have "n / t < a / t \<or> n / t < b / t \<or> n / t < g / t \<or> n / t < h / t"
      using t(2) by (auto simp: n0)
    then have "argmax_first_declared (normalized self metrics) \<noteq> Some ''None''"
      unfolding norm by (rule argmax_five_other)
    with l(2) False show ?thesis by simp
  qed
  have rule: "none_rule [(''CPU'', a), (''Memory'', b), (''GPU'', g), (''GPU_Memory'', h), (''None'', 0)] =
                Some [(''CPU'', a), (''Memory'', b), (''GPU'', g), (''GPU_Memory'', h), (''None'', 1)]"
    if "max (max (max a b) g) h < 0.3"
    using none_rule_closed [of metrics self] that
    unfolding a_def [symmetric] b_def [symmetric] g_def [symmetric] h_def [symmetric]
      n_def [symmetric]
    by (simp add: five_def n)
  have dil: "n / t < 1 \<longleftrightarrow> a \<noteq> 0 \<or> b \<noteq> 0 \<or> g \<noteq> 0 \<or> h \<noteq> 0"
    if "max (max (max a b) g) h < 0.3"
  proof -
    have n1: "n = 1" using that by (simp add: n)
    have "n / t < 1 \<longleftrightarrow> 1 < t"
      using t(2) by (simp add: n1)
    also have "\<dots> \<longleftrightarrow> 0 < a + b + g + h"
      by (simp add: t(1) n1)
    also have "\<dots> \<longleftrightarrow> a \<noteq> 0 \<or> b \<noteq> 0 \<or> g \<noteq> 0 \<or> h \<noteq> 0"
      using nn by linarith
    finally show ?thesis .
  qed
  show ?thesis
    using raw l(1) nv label rule dil by blast
qed

theorem none_label_iff_all_below_witness:
  "thresholds (sample_monitor 300 True) = init_thresholds \<and>
   score_buckets (sample_monitor 300 True) (sample_metrics 0 [] 86 40 0 0) =
     Some [(''CPU'', 1 / 30), (''Memory'', 0), (''GPU'', 0), (''GPU_Memory'', 0), (''None'', 0)] \<and>
   max (max (max (1 / 30) 0) 0) (0 :: real) < 0.3 \<and>
   analyze_bottleneck (sample_monitor 300 True) (sample_metrics 0 [] 86 40 0 0) =
     Some (''None'', [(''CPU'', 1 / 31), (''Memory'', 0), (''GPU'', 0), (''GPU_Memory'', 0),
                     (''None'', 30 / 31)])"
proof -
  have h: "thresholds (sample_monitor 300 True) = init_thresholds"
    by (rule sample_thresholds)
  have r: "score_buckets (sample_monitor 300 True) (sample_metrics 0 [] 86 40 0 0) =
     Some [(''CPU'', 1 / 30), (''Memory'', 0), (''GPU'', 0), (''GPU_Memory'', 0), (''None'', 0)]"
    by (simp add: score_buckets_def sample_monitor_def sample_metrics_def init_thresholds_def
        max_core_usage_def py_max_def py_max_key_def dict_iadd_def dict_get_def)
  have v: "analyze_bottleneck (sample_monitor 300 True) (sample_metrics 0 [] 86 40 0 0) =
     Some (''None'', [(''CPU'', 1 / 31), (''Memory'', 0), (''GPU'', 0), (''GPU_Memory'', 0),
                     (''None'', 30 / 31)])"
    unfolding analyze_bottleneck_def r
    by (simp add: none_rule_def normalize_scores_def select_bottleneck_def py_max_def
        py_max_key_def dict_values_def dict_items_def total_score_def py_sum_def py_truediv_def)
  show ?thesis
    using none_label_iff_all_below [OF h, of "sample_metrics 0 [] 86 40 0 0"] h r v
    by auto
qed

text \<open>
  Claim C10. On a snapshot whose per-core list is empty the maximum single-core usage
  is 0 (the maximum of an empty list is never asked for), and both the classifier and
  the recommendation generator return a result.
\<close>

theorem empty_core_list_total:
  assumes "cpu_per_core metrics = []" and "thresholds self = init_thresholds"
  shows "max_core_usage metrics = Some 0 \<and>
         (\<exists>l scores. analyze_bottleneck self metrics = Some (l, scores)) \<and>
         (\<exists>recs. get_recommendations self metrics = Some recs)"
proof -
  have m: "max_core_usage metrics = Some 0"
    using assms(1) by (simp add: max_core_usage_def)
  have "\<exists>l scores. analyze_bottleneck self metrics = Some (l, scores)"
    using analyze_total [OF assms(2)] by blast
  moreover have "\<exists>recs. get_recommendations self metrics = Some recs"
    unfolding get_recommendations_def m by simp
  ultimately show ?thesis using m by simp
qed

theorem empty_core_list_total_witness:
  "cpu_per_core (sample_metrics 0 [] 50 40 0 0) = [] \<and>
   thresholds (sample_monitor 300 True) = init_thresholds \<and>
   max_core_usage (sample_metrics 0 [] 50 40 0 0) = Some 0 \<and>
   analyze_bottleneck (sample_monitor 300 True) (sample_metrics 0 [] 50 40 0 0) =
     Some (''None'', [(''CPU'', 0), (''Memory'', 0), (''GPU'', 0), (''GPU_Memory'', 0),
                     (''None'', 1)]) \<and>
   get_recommendations (sample_monitor 300 True) (sample_metrics 0 [] 50 40 0 0) =
     Some [''System performance appears balanced. No immediate bottlenecks detected.'']"
proof -
  have e: "cpu_per_core (sample_metrics 0 [] 50 40 0 0) = []"
    by (simp add: sample_metrics_def)
  have h: "thresholds (sample_monitor 300 True) = init_thresholds"
    by (rule sample_thresholds)
  have v: "analyze_bottleneck (sample_monitor 300 True) (sample_metrics 0 [] 50 40 0 0) =
     Some (''None'', [(''CPU'', 0), (''Memory'', 0), (''GPU'', 0), (''GPU_Memory'', 0),
                     (''None'', 1)])"
    by (simp add: analyze_bottleneck_def score_buckets_def none_rule_def normalize_scores_def
        select_bottleneck_def sample_monitor_def sample_metrics_def init_thresholds_def
        max_core_usage_def py_max_def py_max_key_def dict_iadd_def dict_get_def
        dict_values_def dict_items_def total_score_def py_sum_def py_truediv_def)
  have g: "get_recommendations (sample_monitor 300 True) (sample_metrics 0 [] 50 40 0 0) =
     Some [''System performance appears balanced. No immediate bottlenecks detected.'']"
    by (simp add: get_recommendations_def max_core_usage_def sample_metrics_def)
  show ?thesis
    using empty_core_list_total [OF e h] e h v g by simp
qed

subsection \<open>The claim about the recommendation generator\<close>

lemma recommendations_total: "\<exists>recs. get_recommendations self metrics = Some recs"
  unfolding get_recommendations_def max_core_usage_peak by simp

lemma store_get_fresh: "store_get (h @ [x]) (length h) = Some x"
  by (simp add: store_get_def)

lemma store_get_old: "store_get h a = Some x \<Longrightarrow> store_get (h @ [y]) a = Some x"
  by (auto simp: store_get_def nth_append split: if_splits)

lemma list_extend_fresh:
  "list_extend (h @ [ListObj ys]) (length h) xs = Some (h @ [ListObj (ys @ xs)])"
  by (simp add: list_extend_def store_get_fresh)

lemma list_append_fresh:
  "list_append (h @ [ListObj ys]) (length h) x = Some (h @ [ListObj (ys @ [x])])"
  by (simp add: list_append_def store_get_fresh)

lemma read_fields_old:
  assumes "store_get h a = Some (MetricsObj v)"
  shows "read_cpu_per_core (h @ [y]) a = Some (cpu_per_core v)"
    and "read_bottleneck (h @ [y]) a = Some (bottleneck v)"
  using store_get_old [OF assms, of y]
  by (simp_all add: read_cpu_per_core_def read_bottleneck_def)

lemma get_recommendations_store_value:
  assumes "store_get h metrics = Some (MetricsObj v)"
  shows "get_recommendations_store self metrics h =
           map_option (\<lambda>recs. (length h, h @ [ListObj recs])) (get_recommendations monitor v)"
  unfolding get_recommendations_store_def get_recommendations_def new_list_def
    max_core_usage_peak
  by (simp add: read_fields_old [OF assms] list_extend_fresh list_append_fresh
      max_core_usage_peak [unfolded max_core_usage_def] Let_def)


lemma get_recommendations_fields:
  assumes "bottleneck v1 = bottleneck v2" and "cpu_per_core v1 = cpu_per_core v2"
  shows "get_recommendations monitor1 v1 = get_recommendations monitor2 v2"
  unfolding get_recommendations_def max_core_usage_def assms ..

text \<open>
  Claim C8. The recommendation generator is deterministic and has no side effect. Called
  on a snapshot held in a store, it returns the address of a new list, and the store
  afterwards is the store before with that one list added: no object that was there,
  the snapshot, the monitor and its history included, has changed. Two invocations on
  snapshots with the same values, in any two stores, at any addresses and for any
  monitor, return lists with the same strings in the same order; only the label and the
  per-core list of the snapshot are read. The sequence is the one that the function on
  values, used by the windowed analysis, returns.
\<close>

theorem recommendations_deterministic:
  assumes "store_get h1 m1 = Some (MetricsObj v1)"
    and "store_get h2 m2 = Some (MetricsObj v2)"
    and "bottleneck v1 = bottleneck v2"
    and "cpu_per_core v1 = cpu_per_core v2"
  shows "\<exists>recs. get_recommendations_store s1 m1 h1 = Some (length h1, h1 @ [ListObj recs]) \<and>
                 get_recommendations_store s2 m2 h2 = Some (length h2, h2 @ [ListObj recs]) \<and>
                 get_recommendations monitor v1 = Some recs"
proof -
  obtain recs where r: "get_recommendations monitor v1 = Some recs"
    using recommendations_total by blast
  then have r2: "get_recommendations monitor v2 = Some recs"
    using get_recommendations_fields [OF assms(3,4), of monitor monitor] by simp
  have "get_recommendations_store s1 m1 h1 = Some (length h1, h1 @ [ListObj recs])"
    unfolding get_recommendations_store_value [OF assms(1), of s1 monitor] r by simp
  moreover have "get_recommendations_store s2 m2 h2 = Some (length h2, h2 @ [ListObj recs])"
    unfolding get_recommendations_store_value [OF assms(2), of s2 monitor] r2 by simp
  ultimately show ?thesis using r by blast
qed


lemma format_905: "format_0f (181 / 2) = ''90''"
  by (simp add: format_0f_def round_half_even_def decimal.simps)

theorem recommendations_deterministic_witness:
  "store_get [MonitorObj (sample_monitor 300 True),
              MetricsObj (sample_metrics 0 [40, 181 / 2] 50 40 0 0\<lparr>bottleneck := ''CPU''\<rparr>)] 1 =
     Some (MetricsObj (sample_metrics 0 [40, 181 / 2] 50 40 0 0\<lparr>bottleneck := ''CPU''\<rparr>)) \<and>
   store_get [MetricsObj (sample_metrics 7 [40, 181 / 2] 99 99 99 99\<lparr>bottleneck := ''CPU''\<rparr>),
              ListObj [''kept''], MonitorObj (sample_monitor 5 False)] 0 =
     Some (MetricsObj (sample_metrics 7 [40, 181 / 2] 99 99 99 99\<lparr>bottleneck := ''CPU''\<rparr>)) \<and>
   bottleneck (sample_metrics 0 [40, 181 / 2] 50 40 0 0\<lparr>bottleneck := ''CPU''\<rparr>) =
     bottleneck (sample_metrics 7 [40, 181 / 2] 99 99 99 99\<lparr>bottleneck := ''CPU''\<rparr>) \<and>
   cpu_per_core (sample_metrics 0 [40, 181 / 2] 50 40 0 0\<lparr>bottleneck := ''CPU''\<rparr>) =
     cpu_per_core (sample_metrics 7 [40, 181 / 2] 99 99 99 99\<lparr>bottleneck := ''CPU''\<rparr>) \<and>
   get_recommendations_store 0 1
     [MonitorObj (sample_monitor 300 True),
      MetricsObj (sample_metrics 0 [40, 181 / 2] 50 40 0 0\<lparr>bottleneck := ''CPU''\<rparr>)] =
     Some (2,
       [MonitorObj (sample_monitor 300 True),
        MetricsObj (sample_metrics 0 [40, 181 / 2] 50 40 0 0\<lparr>bottleneck := ''CPU''\<rparr>),
        ListObj
          [''Single-core bottleneck detected (Core at 90%)'',
           ''Falcon BMS is limited by single-threaded performance'',
           ''Consider overclocking your CPU for better single-core performance'',
           ''Lower CPU-intensive settings: AI traffic, ground objects, weather complexity'']]) \<and>
   get_recommendations_store 2 0
     [MetricsObj (sample_metrics 7 [40, 181 / 2] 99 99 99 99\<lparr>bottleneck := ''CPU''\<rparr>),
      ListObj [''kept''], MonitorObj (sample_monitor 5 False)] =
     Some (3,
       [MetricsObj (sample_metrics 7 [40, 181 / 2] 99 99 99 99\<lparr>bottleneck := ''CPU''\<rparr>),
        ListObj [''kept''], MonitorObj (sample_monitor 5 False),
        ListObj
          [''Single-core bottleneck detected (Core at 90%)'',
           ''Falcon BMS is limited by single-threaded performance'',
           ''Consider overclocking your CPU for better single-core performance'',
           ''Lower CPU-intensive settings: AI traffic, ground objects, weather complexity'']])"
proof -
  let ?v1 = "sample_metrics 0 [40, 181 / 2] 50 40 0 0\<lparr>bottleneck := ''CPU''\<rparr>"
  let ?v2 = "sample_metrics 7 [40, 181 / 2] 99 99 99 99\<lparr>bottleneck := ''CPU''\<rparr>"
  let ?h1 = "[MonitorObj (sample_monitor 300 True), MetricsObj ?v1]"
  let ?h2 = "[MetricsObj ?v2, ListObj [''kept''], MonitorObj (sample_monitor 5 False)]"
  have g1: "store_get ?h1 1 = Some (MetricsObj ?v1)"
    by (simp add: store_get_def)
  have g2: "store_get ?h2 0 = Some (MetricsObj ?v2)"
    by (simp add: store_get_def)
  have b: "bottleneck ?v1 = bottleneck ?v2"
    by simp
  have c: "cpu_per_core ?v1 = cpu_per_core ?v2"
    by (simp add: sample_metrics_def)
  have v: "get_recommendations (sample_monitor 300 True) ?v1 =
     Some [''Single-core bottleneck detected (Core at 90%)'',
           ''Falcon BMS is limited by single-threaded performance'',
           ''Consider overclocking your CPU for better single-core performance'',
           ''Lower CPU-intensive settings: AI traffic, ground objects, weather complexity'']"
    by (simp add: get_recommendations_def max_core_usage_def sample_metrics_def py_max_def
        py_max_key_def format_905)
  from recommendations_deterministic [OF g1 g2 b c, of 0 2 "sample_monitor 300 True"]
  obtain recs where
    r: "get_recommendations_store 0 1 ?h1 = Some (length ?h1, ?h1 @ [ListObj recs])"
      "get_recommendations_store 2 0 ?h2 = Some (length ?h2, ?h2 @ [ListObj recs])"
      "get_recommendations (sample_monitor 300 True) ?v1 = Some recs"
    by blast
  from r(3) v have "recs =
      [''Single-core bottleneck detected (Core at 90%)'',
       ''Falcon BMS is limited by single-threaded performance'',
       ''Consider overclocking your CPU for better single-core performance'',
       ''Lower CPU-intensive settings: AI traffic, ground objects, weather complexity'']"
    by simp
  with r(1,2) g1 g2 b c show ?thesis
    by simp
qed

subsection \<open>The claims about the history and the windowed analysis\<close>

lemma deque_append_maxlen: "maxlen (deque_append d x) = maxlen d"
  by (simp add: deque_append_def Let_def)

lemma drop_append_le: "n \<le> length A \<Longrightarrow> drop n A @ B = drop n (A @ B)"
  by simp

lemma drop_window:
  assumes "e = length A - m" and "length A \<le> Suc m"
  shows "drop (length (drop e (A @ xs)) - m) (drop e (A @ xs)) =
         drop (length (A @ xs) - m) (A @ xs)"
proof -
  have "length (drop e (A @ xs)) - m + e = length (A @ xs) - m"
    using assms by (cases "length A \<le> m") simp_all
  then show ?thesis by (simp only: drop_drop)
qed

lemma deque_append_items:
  assumes "length (items d) \<le> maxlen d"
  shows "items (deque_append d x) = drop (length (items d @ [x]) - maxlen d) (items d @ [x])"
proof (cases "length (items d) + 1 > maxlen d")
  case True
  with assms have k: "length (items d @ [x]) - maxlen d = Suc 0" by simp
  from True have "items (deque_append d x) = tl (items d @ [x])"
    by (simp add: deque_append_def Let_def)
  also have "\<dots> = drop (Suc 0) (items d @ [x])"
    by (simp only: drop_Suc drop_0)
  finally show ?thesis by (simp only: k)
next
  case False
  then show ?thesis by (simp add: deque_append_def Let_def)
qed

lemma deque_append_bounded:
  assumes "length (items d) \<le> maxlen d"
  shows "length (items (deque_append d x)) \<le> maxlen d"
  unfolding deque_append_items [OF assms] by simp

lemma deque_pushes_items:
  assumes "length (items d) \<le> maxlen d"
  shows "items (foldl deque_append d xs) = drop (length (items d @ xs) - maxlen d) (items d @ xs)
         \<and> maxlen (foldl deque_append d xs) = maxlen d"
  using assms
proof (induction xs arbitrary: d)
  case Nil
  then show ?case by simp
next
  case (Cons x xs)
  let ?d = "deque_append d x"
  let ?A = "items d @ [x]"
  let ?e = "length ?A - maxlen d"
  have b: "length (items ?d) \<le> maxlen ?d"
    using deque_append_bounded [OF Cons.prems] by (simp add: deque_append_maxlen)
  have i: "items ?d = drop ?e ?A"
    by (rule deque_append_items [OF Cons.prems])
  have A: "length ?A \<le> Suc (maxlen d)" using Cons.prems by simp
  have "items ?d @ xs = drop ?e ?A @ xs" by (simp only: i)
  also have "\<dots> = drop ?e (?A @ xs)" by (rule drop_append_le) simp
  finally have j: "items ?d @ xs = drop ?e (?A @ xs)" .
  have "items (foldl deque_append ?d xs) =
      drop (length (items ?d @ xs) - maxlen ?d) (items ?d @ xs)"
    using Cons.IH [OF b] by simp
  also have "\<dots> = drop (length (drop ?e (?A @ xs)) - maxlen d) (drop ?e (?A @ xs))"
    by (simp only: j deque_append_maxlen)
  also have "\<dots> = drop (length (?A @ xs) - maxlen d) (?A @ xs)"
    by (rule drop_window [OF refl A])
  finally have "items (foldl deque_append ?d xs) = drop (length (?A @ xs) - maxlen d) (?A @ xs)" .
  moreover have "maxlen (foldl deque_append ?d xs) = maxlen d"
    using Cons.IH [OF b] by (simp add: deque_append_maxlen)
  ultimately show ?case by simp
qed

lemma deque_new_pushes:
  "items (foldl deque_append (deque_new n) xs) = drop (length xs - n) xs"
  using deque_pushes_items [of "deque_new n" xs] by (simp add: deque_new_def)


lemma collect_metrics_history:
  "collect_metrics (self\<lparr>metrics_history := hist\<rparr>) = collect_metrics self"
  by (rule ext)
    (simp add: collect_metrics_def analyze_bottleneck_def score_buckets_def cong: if_cong)

lemma collect_metrics_total:
  assumes "thresholds self = init_thresholds"
  shows "\<exists>snapshot. collect_metrics self reading = Some snapshot \<and>
           timestamp snapshot = timestamp reading"
proof -
  obtain l where "analyze_bottleneck self reading = Some (l, normalized self reading)"
    using analyze_total [OF assms] by blast
  from collect_metrics_closed [OF assms this] show ?thesis by simp
qed

lemma monitor_loop_history:
  assumes "thresholds self = init_thresholds"
  shows "\<exists>snapshots. comprehension (collect_metrics self) readings = Some snapshots \<and>
           map timestamp snapshots = map timestamp readings \<and>
           metrics_history (monitor_loop self readings) =
             foldl deque_append (metrics_history self) snapshots"
  using assms
proof (induction readings arbitrary: self)
  case Nil
  then show ?case by (simp add: monitor_loop_def)
next
  case (Cons r rs)
  obtain s where s: "collect_metrics self r = Some s" "timestamp s = timestamp r"
    using collect_metrics_total [OF Cons.prems] by blast
  let ?self = "self\<lparr>metrics_history := deque_append (metrics_history self) s\<rparr>"
  have step: "monitor_iteration self r = ?self"
    by (simp add: monitor_iteration_def s)
  have "thresholds ?self = init_thresholds"
    using Cons.prems by simp
  from Cons.IH [OF this] obtain ss where
    ss: "comprehension (collect_metrics ?self) rs = Some ss"
      "map timestamp ss = map timestamp rs"
      "metrics_history (monitor_loop ?self rs) = foldl deque_append (metrics_history ?self) ss"
    by blast
  have "comprehension (collect_metrics self) (r # rs) = Some (s # ss)"
    using s(1) ss(1) by (simp add: collect_metrics_history)
  moreover have "map timestamp (s # ss) = map timestamp (r # rs)"
    using s(2) ss(2) by simp
  moreover have "metrics_history (monitor_loop self (r # rs)) =
      foldl deque_append (metrics_history self) (s # ss)"
    using ss(3) by (simp add: monitor_loop_def step)
  ultimately show ?case by blast
qed

lemma init_fields:
  assumes "PerformanceMonitor_init si cap gpu = Some self"
  shows "thresholds self = init_thresholds" "metrics_history self = deque_new (nat cap)" "0 \<le> cap"
  using assms by (auto simp: PerformanceMonitor_init_def split: if_splits)

text \<open>
  Nothing assigns to \<^verbatim>\<open>self.thresholds\<close> after \<^verbatim>\<open>__init__\<close>, so the hypothesis
  \<open>thresholds self = init_thresholds\<close> of the theorems in this theory holds of every
  monitor the program reaches.
\<close>

lemma monitor_iteration_thresholds:
  "thresholds (monitor_iteration self reading) = thresholds self \<and>
   gpu_available (monitor_iteration self reading) = gpu_available self"
  by (simp add: monitor_iteration_def split: option.splits)

lemma monitor_loop_thresholds:
  "thresholds (monitor_loop self readings) = thresholds self \<and>
   gpu_available (monitor_loop self readings) = gpu_available self"
  unfolding monitor_loop_def
  by (induction readings arbitrary: self) (simp_all add: monitor_iteration_thresholds)

lemma reachable_thresholds:
  assumes "PerformanceMonitor_init si cap gpu = Some self"
  shows "thresholds (monitor_loop self readings) = init_thresholds"
  using init_fields(1) [OF assms] by (simp add: monitor_loop_thresholds)

lemma sorted_wrt_drop: "sorted_wrt P xs \<Longrightarrow> sorted_wrt P (drop n xs)"
  by (induction xs arbitrary: n) (auto simp: drop_Cons split: nat.splits dest: in_set_dropD)

text \<open>
  Claim C5. A monitor created with capacity \<open>cap\<close> (300 by default) that makes
  \<open>cap + 1\<close> passes of its loop has appended \<open>cap + 1\<close> snapshots to its history.
  Exactly \<open>cap\<close> of them remain: all but the first one appended, in the order of their
  insertion, so their timestamps are strictly increasing when the readings' were.
\<close>

theorem history_keeps_last_capacity:
  assumes "PerformanceMonitor_init si cap gpu = Some self"
    and "length readings = nat cap + 1"
  shows "\<exists>snapshots.
           comprehension (collect_metrics self) readings = Some snapshots \<and>
           map timestamp snapshots = map timestamp readings \<and>
           items (metrics_history (monitor_loop self readings)) = tl snapshots \<and>
           length (items (metrics_history (monitor_loop self readings))) = nat cap \<and>
           (sorted_wrt (<) (map timestamp readings) \<longrightarrow>
              sorted_wrt (<) (map timestamp (items (metrics_history (monitor_loop self readings)))))"
proof -
  from monitor_loop_history [OF init_fields(1) [OF assms(1)], of readings]
  obtain ss where ss: "comprehension (collect_metrics self) readings = Some ss"
      "map timestamp ss = map timestamp readings"
      "metrics_history (monitor_loop self readings) = foldl deque_append (metrics_history self) ss"
    by blast
  have len: "length ss = nat cap + 1"
    using ss(2) assms(2) by (metis length_map)
  have it: "items (metrics_history (monitor_loop self readings)) = tl ss"
    unfolding ss(3) init_fields(2) [OF assms(1)] deque_new_pushes
    by (simp add: len drop_Suc)
  have "sorted_wrt (<) (map timestamp (tl ss))" if "sorted_wrt (<) (map timestamp readings)"
    using that sorted_wrt_drop [of "(<)" "map timestamp ss" 1]
    by (simp add: ss(2) drop_Suc map_tl)
  then show ?thesis
    using ss(1,2) it len by auto
qed

theorem history_keeps_last_capacity_witness:
  "PerformanceMonitor_init 1 2 False = Some (sample_monitor 2 False) \<and>
   length [sample_metrics 10 [] 50 40 0 0, sample_metrics 20 [90] 50 40 0 0,
           sample_metrics 30 [] 50 95 0 0] = nat 2 + 1 \<and>
   sorted_wrt (<) (map timestamp
     [sample_metrics 10 [] 50 40 0 0, sample_metrics 20 [90] 50 40 0 0,
      sample_metrics 30 [] 50 95 0 0]) \<and>
   map timestamp (items (metrics_history (monitor_loop (sample_monitor 2 False)
     [sample_metrics 10 [] 50 40 0 0, sample_metrics 20 [90] 50 40 0 0,
      sample_metrics 30 [] 50 95 0 0]))) = [20, 30]"
proof -
  have i: "PerformanceMonitor_init 1 2 False = Some (sample_monitor 2 False)"
    by (simp add: PerformanceMonitor_init_def sample_monitor_def)
  have l: "length [sample_metrics 10 [] 50 40 0 0, sample_metrics 20 [90] 50 40 0 0,
           sample_metrics 30 [] 50 95 0 0] = nat 2 + 1"
    by simp
  have s: "sorted_wrt (<) (map timestamp
     [sample_metrics 10 [] 50 40 0 0, sample_metrics 20 [90] 50 40 0 0,
      sample_metrics 30 [] 50 95 0 0])"
    by (simp add: sample_metrics_def)
  have t: "map timestamp [sample_metrics 10 [] 50 40 0 0, sample_metrics 20 [90] 50 40 0 0,
      sample_metrics 30 [] 50 95 0 0] = [10, 20, 30]"
    by (simp add: sample_metrics_def)
  from history_keeps_last_capacity [OF i l] obtain ss where
    ss: "map timestamp ss = map timestamp [sample_metrics 10 [] 50 40 0 0,
          sample_metrics 20 [90] 50 40 0 0, sample_metrics 30 [] 50 95 0 0]"
      "items (metrics_history (monitor_loop (sample_monitor 2 False)
         [sample_metrics 10 [] 50 40 0 0, sample_metrics 20 [90] 50 40 0 0,
          sample_metrics 30 [] 50 95 0 0])) = tl ss"
    by blast
  have "map timestamp (tl ss) = [20, 30]"
    using ss(1) unfolding t by (simp add: map_tl)
  then show ?thesis
    using i l s ss(2) by simp
qed

lemma history_after_loop:
  assumes "PerformanceMonitor_init si cap gpu = Some self"
  shows "\<exists>snapshots. length snapshots = length readings \<and>
           items (metrics_history (monitor_loop self readings)) =
             drop (length snapshots - nat cap) snapshots"
proof -
  from monitor_loop_history [OF init_fields(1) [OF assms], of readings]
  obtain ss where ss: "map timestamp ss = map timestamp readings"
      "metrics_history (monitor_loop self readings) = foldl deque_append (metrics_history self) ss"
    by blast
  have "length ss = length readings"
    using ss(1) by (metis length_map)
  moreover have "items (metrics_history (monitor_loop self readings)) =
      drop (length ss - nat cap) ss"
    unfolding ss(2) init_fields(2) [OF assms] by (rule deque_new_pushes)
  ultimately show ?thesis by blast
qed

lemma history_empty_iff:
  assumes "PerformanceMonitor_init si cap gpu = Some self" and "0 < cap"
  shows "items (metrics_history (monitor_loop self readings)) = [] \<longleftrightarrow> readings = []"
proof -
  from history_after_loop [OF assms(1), of readings] obtain ss where
    ss: "length ss = length readings"
      "items (metrics_history (monitor_loop self readings)) = drop (length ss - nat cap) ss"
    by blast
  have c: "0 < nat cap" using assms(2) by simp
  have "length ss \<le> length ss - nat cap \<longleftrightarrow> length ss = 0"
    using c by arith
  then have "drop (length ss - nat cap) ss = [] \<longleftrightarrow> length ss = 0"
    by simp
  then show ?thesis using ss by simp
qed

lemma analysis_error_iff:
  "(\<exists>msg. get_bottleneck_analysis self now w = Some (ErrorResult msg)) \<longleftrightarrow>
   items (metrics_history self) = []"
  by (auto simp: get_bottleneck_analysis_def Let_def bind_eq_Some_conv)

lemma recent_window_nonempty:
  assumes "items history \<noteq> []"
  shows "\<exists>recent. recent_window history cutoff = Some recent \<and> recent \<noteq> [] \<and>
           (filter (\<lambda>m. cutoff \<le> timestamp m) (items history) = [] \<longrightarrow>
              recent = [last (items history)])"
  using assms by (simp add: recent_window_def Let_def py_last_def)

lemma dict_set_all:
  "list_all P d \<Longrightarrow> P (k, v) \<Longrightarrow> list_all P (dict_set d k v)"
  by (induction d) auto

lemma defaultdict_append_nonempty:
  "list_all (\<lambda>kv. snd kv \<noteq> []) d \<Longrightarrow> list_all (\<lambda>kv. snd kv \<noteq> []) (defaultdict_append d k x)"
  by (simp add: defaultdict_append_def dict_set_all)

lemma fold_scores_nonempty:
  "list_all (\<lambda>kv. snd kv \<noteq> []) d \<Longrightarrow>
   list_all (\<lambda>kv. snd kv \<noteq> [])
     (fold (\<lambda>(component, score) avg. defaultdict_append avg component score) items' d)"
  by (induction items' arbitrary: d) (auto simp: defaultdict_append_nonempty)

lemma fold_metrics_nonempty:
  "list_all (\<lambda>kv. snd kv \<noteq> []) d \<Longrightarrow>
   list_all (\<lambda>kv. snd kv \<noteq> [])
     (fold (\<lambda>metrics avg.
              fold (\<lambda>(component, score) avg. defaultdict_append avg component score)
                (dict_items (bottleneck_score metrics)) avg) ms d)"
  by (induction ms arbitrary: d) (simp_all add: fold_scores_nonempty)

lemma averages_total:
  "list_all (\<lambda>kv. snd kv \<noteq> []) d \<Longrightarrow>
   \<exists>r. comprehension
          (\<lambda>(component, scores). do {
             q \<leftarrow> py_truediv (py_sum scores) (real (length scores));
             Some (component, q) }) d = Some r"
  by (induction d) (auto simp: py_truediv_def)

lemma analysis_summary:
  assumes "items (metrics_history self) \<noteq> []"
    and "timedelta_seconds w = Some delta"
    and "datetime_sub now delta = Some cutoff"
    and "recent_window (metrics_history self) cutoff = Some recent"
    and "recent \<noteq> []"
  shows "\<exists>summary. get_bottleneck_analysis self now w = Some (Summary summary) \<and>
           current_bottleneck summary = bottleneck (last recent)"
proof -
  let ?avg = "fold (\<lambda>metrics avg.
              fold (\<lambda>(component, score) avg. defaultdict_append avg component score)
                (dict_items (bottleneck_score metrics)) avg) recent []"
  have "list_all (\<lambda>kv. snd kv \<noteq> []) ?avg"
    by (rule fold_metrics_nonempty) simp
  then have "list_all (\<lambda>kv. snd kv \<noteq> []) (dict_items ?avg)"
    by (simp add: dict_items_def)
  from averages_total [OF this] obtain r where
    r: "comprehension
          (\<lambda>(component, scores). do {
             q \<leftarrow> py_truediv (py_sum scores) (real (length scores));
             Some (component, q) }) (dict_items ?avg) = Some r"
    by blast
  obtain recs where recs: "get_recommendations self (last recent) = Some recs"
    using recommendations_total by blast
  have l: "py_last recent = Some (last recent)"
    using assms(5) by (simp add: py_last_def)
  show ?thesis
    unfolding get_bottleneck_analysis_def Let_def
    by (simp only: assms(1-4) r l recs if_False bind.bind_lunit) simp
qed


text \<open>
  Claim C4, amended. For a monitor whose history has a capacity of at least 1 (300 by
  default), the windowed analysis returns the error result exactly when the loop has
  appended no snapshot. Otherwise the window is never empty, and when no stored
  snapshot has a timestamp at or after the cutoff it is the one-element sequence of the
  latest snapshot, on which the analysis then returns a summary whose current
  bottleneck is that snapshot's.
\<close>

theorem error_result_iff_no_sample:
  assumes "PerformanceMonitor_init si cap gpu = Some self0"
    and "0 < cap"
    and "self = monitor_loop self0 readings"
  shows "((\<exists>msg. get_bottleneck_analysis self now w = Some (ErrorResult msg)) \<longleftrightarrow>
            readings = []) \<and>
         (readings \<noteq> [] \<longrightarrow>
            (\<exists>latest. py_last (items (metrics_history self)) = Some latest \<and>
               (\<forall>cutoff. \<exists>recent.
                  recent_window (metrics_history self) cutoff = Some recent \<and> recent \<noteq> [] \<and>
                  (filter (\<lambda>m. cutoff \<le> timestamp m) (items (metrics_history self)) = [] \<longrightarrow>
                     recent = [latest])) \<and>
               (\<forall>delta cutoff.
                  timedelta_seconds w = Some delta \<and> datetime_sub now delta = Some cutoff \<and>
                  filter (\<lambda>m. cutoff \<le> timestamp m) (items (metrics_history self)) = [] \<longrightarrow>
                  (\<exists>summary. get_bottleneck_analysis self now w = Some (Summary summary) \<and>
                     current_bottleneck summary = bottleneck latest))))"
proof -
  have e: "items (metrics_history self) = [] \<longleftrightarrow> readings = []"
    unfolding assms(3) by (rule history_empty_iff [OF assms(1,2)])
  have first: "(\<exists>msg. get_bottleneck_analysis self now w = Some (ErrorResult msg)) \<longleftrightarrow>
      readings = []"
    using analysis_error_iff [of self now w] e by simp
  have second: "\<exists>latest. py_last (items (metrics_history self)) = Some latest \<and>
               (\<forall>cutoff. \<exists>recent.
                  recent_window (metrics_history self) cutoff = Some recent \<and> recent \<noteq> [] \<and>
                  (filter (\<lambda>m. cutoff \<le> timestamp m) (items (metrics_history self)) = [] \<longrightarrow>
                     recent = [latest])) \<and>
               (\<forall>delta cutoff.
                  timedelta_seconds w = Some delta \<and> datetime_sub now delta = Some cutoff \<and>
                  filter (\<lambda>m. cutoff \<le> timestamp m) (items (metrics_history self)) = [] \<longrightarrow>
                  (\<exists>summary. get_bottleneck_analysis self now w = Some (Summary summary) \<and>
                     current_bottleneck summary = bottleneck latest))"
    if "readings \<noteq> []"
  proof -
    let ?latest = "last (items (metrics_history self))"
    have ne: "items (metrics_history self) \<noteq> []"
      using that e by simp
    have 1: "py_last (items (metrics_history self)) = Some ?latest"
      using ne by (simp add: py_last_def)
    have 2: "\<exists>recent. recent_window (metrics_history self) cutoff = Some recent \<and> recent \<noteq> [] \<and>
        (filter (\<lambda>m. cutoff \<le> timestamp m) (items (metrics_history self)) = [] \<longrightarrow>
           recent = [?latest])" for cutoff
      by (rule recent_window_nonempty [OF ne])
    have 3: "\<exists>summary. get_bottleneck_analysis self now w = Some (Summary summary) \<and>
                     current_bottleneck summary = bottleneck ?latest"
      if "timedelta_seconds w = Some delta" "datetime_sub now delta = Some cutoff"
        "filter (\<lambda>m. cutoff \<le> timestamp m) (items (metrics_history self)) = []"
      for delta cutoff
    proof -
      from 2 [of cutoff] that(3)
      have "recent_window (metrics_history self) cutoff = Some [?latest]" by auto
      from analysis_summary [OF ne that(1,2) this] show ?thesis by simp
    qed
    show ?thesis using 1 2 3 by blast
  qed
  show ?thesis using first second by blast
qed


lemma sample_collect_idle:
  "collect_metrics (sample_monitor capacity False) (sample_metrics t [] 50 40 0 0) =
     Some (sample_metrics t [] 50 40 0 0
       \<lparr>bottleneck := ''None'',
        bottleneck_score := [(''CPU'', 0), (''Memory'', 0), (''GPU'', 0), (''GPU_Memory'', 0),
                             (''None'', 1)]\<rparr>)"
  by (simp add: collect_metrics_def analyze_bottleneck_def score_buckets_def none_rule_def
      normalize_scores_def select_bottleneck_def sample_monitor_def sample_metrics_def
      init_thresholds_def max_core_usage_def py_max_def py_max_key_def dict_iadd_def
      dict_get_def dict_values_def dict_items_def total_score_def py_sum_def py_truediv_def)

lemma sample_collect_busy:
  "collect_metrics (sample_monitor capacity False) (sample_metrics t [90] 50 40 0 0) =
     Some (sample_metrics t [90] 50 40 0 0
       \<lparr>bottleneck := ''CPU'',
        bottleneck_score := [(''CPU'', 1), (''Memory'', 0), (''GPU'', 0), (''GPU_Memory'', 0),
                             (''None'', 0)]\<rparr>)"
  by (simp add: collect_metrics_def analyze_bottleneck_def score_buckets_def none_rule_def
      normalize_scores_def select_bottleneck_def sample_monitor_def sample_metrics_def
      init_thresholds_def max_core_usage_def py_max_def py_max_key_def dict_iadd_def
      dict_get_def dict_values_def dict_items_def total_score_def py_sum_def py_truediv_def)

lemma sample_history:
  "items (metrics_history (monitor_loop (sample_monitor 2 False)
     [sample_metrics 10 [] 50 40 0 0, sample_metrics 20 [90] 50 40 0 0])) =
   [sample_metrics 10 [] 50 40 0 0
       \<lparr>bottleneck := ''None'',
        bottleneck_score := [(''CPU'', 0), (''Memory'', 0), (''GPU'', 0), (''GPU_Memory'', 0),
                             (''None'', 1)]\<rparr>,
    sample_metrics 20 [90] 50 40 0 0
       \<lparr>bottleneck := ''CPU'',
        bottleneck_score := [(''CPU'', 1), (''Memory'', 0), (''GPU'', 0), (''GPU_Memory'', 0),
                             (''None'', 0)]\<rparr>]"
proof -
  have 1: "monitor_iteration (sample_monitor 2 False) (sample_metrics 10 [] 50 40 0 0) =
      (sample_monitor 2 False)\<lparr>metrics_history :=
         deque_append (deque_new 2) (sample_metrics 10 [] 50 40 0 0
           \<lparr>bottleneck := ''None'',
            bottleneck_score := [(''CPU'', 0), (''Memory'', 0), (''GPU'', 0), (''GPU_Memory'', 0),
                                 (''None'', 1)]\<rparr>)\<rparr>"
    unfolding monitor_iteration_def sample_collect_idle by (simp add: sample_monitor_def)
  have c: "collect_metrics ((sample_monitor 2 False)\<lparr>metrics_history := h\<rparr>)
        (sample_metrics 20 [90] 50 40 0 0) =
      Some (sample_metrics 20 [90] 50 40 0 0
       \<lparr>bottleneck := ''CPU'',
        bottleneck_score := [(''CPU'', 1), (''Memory'', 0), (''GPU'', 0), (''GPU_Memory'', 0),
                             (''None'', 0)]\<rparr>)" for h
    unfolding collect_metrics_history by (rule sample_collect_busy)
  have 2: "monitor_iteration ((sample_monitor 2 False)\<lparr>metrics_history := h\<rparr>)
        (sample_metrics 20 [90] 50 40 0 0) =
      (sample_monitor 2 False)\<lparr>metrics_history :=
         deque_append h (sample_metrics 20 [90] 50 40 0 0
           \<lparr>bottleneck := ''CPU'',
            bottleneck_score := [(''CPU'', 1), (''Memory'', 0), (''GPU'', 0), (''GPU_Memory'', 0),
                                 (''None'', 0)]\<rparr>)\<rparr>" for h
    unfolding monitor_iteration_def c by simp
  have "monitor_loop (sample_monitor 2 False)
     [sample_metrics 10 [] 50 40 0 0, sample_metrics 20 [90] 50 40 0 0] =
     monitor_iteration
       (monitor_iteration (sample_monitor 2 False) (sample_metrics 10 [] 50 40 0 0))
       (sample_metrics 20 [90] 50 40 0 0)"
    by (simp add: monitor_loop_def)
  then show ?thesis
    unfolding 1 2 by (simp add: deque_append_def deque_new_def)
qed

theorem error_result_iff_no_sample_witness:
  "PerformanceMonitor_init 1 2 False = Some (sample_monitor 2 False) \<and>
   (0 :: int) < 2 \<and>
   get_bottleneck_analysis (monitor_loop (sample_monitor 2 False) []) 100000000 30 =
     Some (ErrorResult ''No metrics data available'') \<and>
   timedelta_seconds 30 = Some 30000000 \<and>
   datetime_sub 100000000 30000000 = Some 70000000 \<and>
   filter (\<lambda>m. 70000000 \<le> timestamp m)
     (items (metrics_history (monitor_loop (sample_monitor 2 False)
        [sample_metrics 10 [] 50 40 0 0, sample_metrics 20 [90] 50 40 0 0]))) = [] \<and>
   map timestamp (the (recent_window (metrics_history (monitor_loop (sample_monitor 2 False)
        [sample_metrics 10 [] 50 40 0 0, sample_metrics 20 [90] 50 40 0 0])) 70000000)) = [20] \<and>
   (\<exists>summary. get_bottleneck_analysis (monitor_loop (sample_monitor 2 False)
        [sample_metrics 10 [] 50 40 0 0, sample_metrics 20 [90] 50 40 0 0]) 100000000 30 =
        Some (Summary summary) \<and> current_bottleneck summary = ''CPU'')"
proof -
  let ?self = "monitor_loop (sample_monitor 2 False)
        [sample_metrics 10 [] 50 40 0 0, sample_metrics 20 [90] 50 40 0 0]"
  have i: "PerformanceMonitor_init 1 2 False = Some (sample_monitor 2 False)"
    by (simp add: PerformanceMonitor_init_def sample_monitor_def)
  have c: "(0 :: int) < 2" by simp
  have e: "get_bottleneck_analysis (monitor_loop (sample_monitor 2 False) []) 100000000 30 =
     Some (ErrorResult ''No metrics data available'')"
    by (simp add: get_bottleneck_analysis_def monitor_loop_def sample_monitor_def deque_new_def)
  have d: "timedelta_seconds 30 = Some 30000000" "datetime_sub 100000000 30000000 = Some 70000000"
    by (simp_all add: timedelta_seconds_def datetime_sub_def datetime_max_def)
  have f: "filter (\<lambda>m. 70000000 \<le> timestamp m) (items (metrics_history ?self)) = []"
    unfolding sample_history by (simp add: sample_metrics_def)
  have l: "py_last (items (metrics_history ?self)) =
      Some (sample_metrics 20 [90] 50 40 0 0
       \<lparr>bottleneck := ''CPU'',
        bottleneck_score := [(''CPU'', 1), (''Memory'', 0), (''GPU'', 0), (''GPU_Memory'', 0),
                             (''None'', 0)]\<rparr>)"
    unfolding sample_history by (simp add: py_last_def)
  have w: "map timestamp (the (recent_window (metrics_history ?self) 70000000)) = [20]"
    unfolding recent_window_def Let_def f l by (simp add: sample_metrics_def)
  have "\<exists>summary. get_bottleneck_analysis ?self 100000000 30 = Some (Summary summary) \<and>
      current_bottleneck summary = ''CPU''"
    using error_result_iff_no_sample [OF i c refl, of
        "[sample_metrics 10 [] 50 40 0 0, sample_metrics 20 [90] 50 40 0 0]" 100000000 30]
      d f l
    by auto
  then show ?thesis
    using i c e d f w by simp
qed

text \<open>
  Claim C4 as stated, for every capacity, fails at capacity 0: \<^verbatim>\<open>deque(maxlen=0)\<close>
  drops every snapshot that is appended, so a monitor that has received a sample still
  has an empty history and returns the error result.
\<close>

theorem error_result_zero_capacity_counterexample:
  "PerformanceMonitor_init 1 0 False = Some (sample_monitor 0 False) \<and>
   collect_metrics (sample_monitor 0 False) (sample_metrics 10 [] 50 40 0 0) =
     Some (sample_metrics 10 [] 50 40 0 0
       \<lparr>bottleneck := ''None'',
        bottleneck_score := [(''CPU'', 0), (''Memory'', 0), (''GPU'', 0), (''GPU_Memory'', 0),
                             (''None'', 1)]\<rparr>) \<and>
   items (metrics_history
     (monitor_loop (sample_monitor 0 False) [sample_metrics 10 [] 50 40 0 0])) = [] \<and>
   get_bottleneck_analysis
     (monitor_loop (sample_monitor 0 False) [sample_metrics 10 [] 50 40 0 0]) 100000000 30 =
     Some (ErrorResult ''No metrics data available'')"
proof -
  have i: "PerformanceMonitor_init 1 0 False = Some (sample_monitor 0 False)"
    by (simp add: PerformanceMonitor_init_def sample_monitor_def)
  have h: "items (metrics_history
     (monitor_loop (sample_monitor 0 False) [sample_metrics 10 [] 50 40 0 0])) = []"
    unfolding monitor_loop_def foldl.simps monitor_iteration_def sample_collect_idle
    by (simp add: sample_monitor_def deque_append_def deque_new_def)
  have "get_bottleneck_analysis
     (monitor_loop (sample_monitor 0 False) [sample_metrics 10 [] 50 40 0 0]) 100000000 30 =
     Some (ErrorResult ''No metrics data available'')"
    unfolding get_bottleneck_analysis_def h by simp
  then show ?thesis
    using i h sample_collect_idle [of 0 10] by simp
qed

end
